theory Spec2Isabelle
  imports Complex_Main "HOL-Library.Word"
begin

section \<open>EnvHelper: typed access to environment variables\<close>

text \<open>
  A shallow embedding of \<^verbatim>\<open>library.h\<close> (EnvHelper.hpp): the structs
  \<^verbatim>\<open>DefaultValueType\<close> and \<^verbatim>\<open>FixedString\<close>, and the two resolvers
  \<^verbatim>\<open>EnvHelperWithDefault::get\<close> and \<^verbatim>\<open>EnvHelper::get\<close>.

  Template parameters become ordinary arguments; the closed set of types the
  \<^verbatim>\<open>if constexpr\<close> chains accept becomes a datatype; exceptions become the left
  summand of a sum; the two output streams and the function-local static become explicit
  state; the process environment is an argument of every call.
\<close>

subsection \<open>Characters, pointers and views\<close>

definition NUL :: char where
  "NUL = CHR 0x00"

definition endl :: string where
  "endl = [CHR 0x0A]"

definition c_str :: "char list \<Rightarrow> string" where
  \<comment> \<open>what a \<^verbatim>\<open>const char*\<close> reader sees of an array: the characters before the terminator\<close>
  "c_str a = takeWhile (\<lambda>c. c \<noteq> NUL) a"

type_synonym addr = nat

text \<open>
  A \<^verbatim>\<open>const char*\<close> of the program points either into the environment block (what
  \<^verbatim>\<open>std::getenv\<close> returned) or at the array \<^verbatim>\<open>DefaultValue.value\<close> of the
  template-parameter object. A \<^verbatim>\<open>std::string_view\<close> is a pointer and a length; it owns
  no characters.
\<close>

datatype pointer = Environ addr | Storage

record string_view =
  sv_data :: pointer
  sv_size :: nat

subsection \<open>The supported types\<close>

text \<open>
  \<^verbatim>\<open>int\<close> is 32 bits wide, \<^verbatim>\<open>long\<close> and \<^verbatim>\<open>long long\<close> 64 bits (the LP64 data model).
  The three floating-point types are type parameters: their values are never inspected by
  the resolvers, only produced by the standard library's parsers and handed on.
\<close>

datatype Type = T_int | T_long | T_long_long | T_float | T_double | T_long_double
  | T_char | T_string_view

datatype ('f, 'd, 'l) scalar =
    V_int "32 word"
  | V_long "64 word"
  | V_long_long "64 word"
  | V_float 'f
  | V_double 'd
  | V_long_double 'l
  | V_char char

datatype ('f, 'd, 'l) SaveType = Plain "('f, 'd, 'l) scalar" | CharArray "char list"

datatype ('f, 'd, 'l) ExportType = Scalar "('f, 'd, 'l) scalar" | StringView string_view

fun scalar_type :: "('f, 'd, 'l) scalar \<Rightarrow> Type" where
  "scalar_type (V_int _) = T_int"
| "scalar_type (V_long _) = T_long"
| "scalar_type (V_long_long _) = T_long_long"
| "scalar_type (V_float _) = T_float"
| "scalar_type (V_double _) = T_double"
| "scalar_type (V_long_double _) = T_long_double"
| "scalar_type (V_char _) = T_char"

fun type_of :: "('f, 'd, 'l) ExportType \<Rightarrow> Type" where
  "type_of (Scalar x) = scalar_type x"
| "type_of (StringView _) = T_string_view"

subsection \<open>DefaultValueType and FixedString\<close>

text \<open>
  Both constructors from a literal run the same loop,
  \<^verbatim>\<open>for (size_t i = 0; i < N; ++i) value[i] = str[i];\<close>
  over an array of exactly \<^verbatim>\<open>N\<close> characters.
\<close>

function copy_loop :: "nat \<Rightarrow> nat \<Rightarrow> char list \<Rightarrow> char list \<Rightarrow> char list" where
  "copy_loop i N str val =
     (if i < N then copy_loop (i + 1) N str (val[i := str ! i]) else val)"
  by pat_completeness auto
termination
  by (relation "measure (\<lambda>(i, N, str, val). N - i)") auto

declare copy_loop.simps [simp del]

record FixedString =
  fs_value :: "char list"

definition FixedString_of :: "char list \<Rightarrow> FixedString" where
  \<comment> \<open>\<^verbatim>\<open>FixedString(const char (&str)[N])\<close>, with \<^verbatim>\<open>N = length str\<close>\<close>
  "FixedString_of str =
     \<lparr>fs_value = copy_loop 0 (length str) str (replicate (length str) NUL)\<rparr>"

definition FixedString_view :: "FixedString \<Rightarrow> string" where
  \<comment> \<open>\<^verbatim>\<open>operator std::string_view\<close>: \<^verbatim>\<open>{value, N - 1}\<close>, here as the characters it spans\<close>
  "FixedString_view fs = take (length (fs_value fs) - 1) (fs_value fs)"

record ('f, 'd, 'l) DefaultValueType =
  dv_value :: "('f, 'd, 'l) SaveType"

definition DefaultValueType_of_val :: "('f, 'd, 'l) scalar \<Rightarrow> ('f, 'd, 'l) DefaultValueType" where
  \<comment> \<open>\<^verbatim>\<open>DefaultValueType(T val) { value = val; }\<close>\<close>
  "DefaultValueType_of_val v = \<lparr>dv_value = Plain v\<rparr>"

definition DefaultValueType_of_str :: "char list \<Rightarrow> ('f, 'd, 'l) DefaultValueType" where
  \<comment> \<open>\<^verbatim>\<open>DefaultValueType(const T (&str)[N])\<close> for \<^verbatim>\<open>T = char\<close>; \<^verbatim>\<open>value{}\<close> starts zeroed\<close>
  "DefaultValueType_of_str str =
     \<lparr>dv_value = CharArray (copy_loop 0 (length str) str (replicate (length str) NUL))\<rparr>"

definition DefaultValueType_get :: "('f, 'd, 'l) DefaultValueType \<Rightarrow> ('f, 'd, 'l) ExportType" where
  \<comment> \<open>\<^verbatim>\<open>return {value, N - 1};\<close> for a character array, \<^verbatim>\<open>return value;\<close> otherwise\<close>
  "DefaultValueType_get d =
     (case dv_value d of
        CharArray buf \<Rightarrow> StringView \<lparr>sv_data = Storage, sv_size = length buf - 1\<rparr>
      | Plain v \<Rightarrow> Scalar v)"

subsection \<open>Exceptions\<close>

text \<open>
  The three exception classes the code meets, all derived from \<^verbatim>\<open>std::exception\<close>;
  each carries its \<^verbatim>\<open>what()\<close> string.
\<close>

datatype exn = runtime_error string | invalid_argument string | out_of_range string

fun what :: "exn \<Rightarrow> string" where
  "what (runtime_error m) = m"
| "what (invalid_argument m) = m"
| "what (out_of_range m) = m"

subsection \<open>The standard library's integer conversions\<close>

text \<open>
  Modelled from the spec: \<^verbatim>\<open>std::stoi\<close>, \<^verbatim>\<open>std::stol\<close> and \<^verbatim>\<open>std::stoll\<close> belong to
  the C++ standard library, not to the repository. The specification describes them as
  decimal conversions "permitting leading whitespace and optional sign per standard numeric
  parsing rules", which "ignore trailing non-numeric characters", and which fail on
  "malformed input, out-of-range value, or empty string". The definitions follow that
  description and the standard's (\<^verbatim>\<open>strtol\<close> in base 10 in the C locale; no conversion
  raises \<^verbatim>\<open>std::invalid_argument\<close>, a value outside the result type raises
  \<^verbatim>\<open>std::out_of_range\<close>). The \<^verbatim>\<open>what()\<close> string is the function's name, as in libstdc++.
\<close>

definition isspace :: "char \<Rightarrow> bool" where
  "isspace c \<longleftrightarrow> c \<in> set [CHR '' '', CHR 0x09, CHR 0x0A, CHR 0x0B, CHR 0x0C, CHR 0x0D]"

definition isdigit :: "char \<Rightarrow> bool" where
  "isdigit c \<longleftrightarrow> c \<in> set ''0123456789''"

definition digit :: "char \<Rightarrow> int" where
  "digit c = of_char c - 48"

definition decimal :: "string \<Rightarrow> int" where
  "decimal ds = foldl (\<lambda>n c. 10 * n + digit c) 0 ds"

definition strip_sign :: "string \<Rightarrow> bool \<times> string" where
  "strip_sign t =
     (case t of
        [] \<Rightarrow> (False, t)
      | c # r \<Rightarrow> if c = CHR ''-'' then (True, r) else if c = CHR ''+'' then (False, r) else (False, t))"

definition strto_integer :: "string \<Rightarrow> int option" where
  \<comment> \<open>the exact value of the longest decimal prefix; \<open>None\<close> when no conversion is possible\<close>
  "strto_integer s =
     (let (neg, u) = strip_sign (dropWhile isspace s);
          ds = takeWhile isdigit u
      in if ds = [] then None
         else Some (if neg then - decimal ds else decimal ds))"

definition stoa :: "nat \<Rightarrow> string \<Rightarrow> string \<Rightarrow> exn + int" where
  "stoa bits name str =
     (case strto_integer str of
        None \<Rightarrow> Inl (invalid_argument name)
      | Some n \<Rightarrow>
          if - (2 ^ (bits - 1)) \<le> n \<and> n < 2 ^ (bits - 1) then Inr n
          else Inl (out_of_range name))"

definition stoi :: "string \<Rightarrow> exn + 32 word" where
  "stoi str = (case stoa 32 ''stoi'' str of Inl e \<Rightarrow> Inl e | Inr n \<Rightarrow> Inr (word_of_int n))"

definition stol :: "string \<Rightarrow> exn + 64 word" where
  "stol str = (case stoa 64 ''stol'' str of Inl e \<Rightarrow> Inl e | Inr n \<Rightarrow> Inr (word_of_int n))"

definition stoll :: "string \<Rightarrow> exn + 64 word" where
  "stoll str = (case stoa 64 ''stoll'' str of Inl e \<Rightarrow> Inl e | Inr n \<Rightarrow> Inr (word_of_int n))"

text \<open>
  Modelled from the spec: the stream inserter for integers, also of the standard library,
  writes the decimal digits, with a minus sign for a negative value.
\<close>

function digits_of :: "int \<Rightarrow> string" where
  "digits_of n =
     (if n < 10 then [char_of (48 + n)]
      else digits_of (n div 10) @ [char_of (48 + n mod 10)])"
  by pat_completeness auto
termination
  by (relation "measure nat") auto

declare digits_of.simps [simp del]

definition put_int :: "int \<Rightarrow> string" where
  "put_int i = (if i < 0 then CHR ''-'' # digits_of (- i) else digits_of i)"

subsection \<open>The standard library's floating-point conversions\<close>

text \<open>
  Modelled from the spec: \<^verbatim>\<open>std::stof\<close>, \<^verbatim>\<open>std::stod\<close> and \<^verbatim>\<open>std::stold\<close> belong to
  the C++ standard library, not to the repository. The specification describes them with
  the integer conversions ("decimal, permitting leading whitespace and optional sign per
  standard numeric parsing rules", trailing characters ignored, failure on "malformed input,
  out-of-range value, or empty string"). The definitions follow that description and the
  library's documentation of \<^verbatim>\<open>strtof\<close>, \<^verbatim>\<open>strtod\<close> and \<^verbatim>\<open>strtold\<close> in the C locale:
  after whitespace and an optional sign, the longest prefix that is a decimal number
  (digits with an optional point, at least one digit, then an optional exponent
  \<^verbatim>\<open>e\<close>, sign, digits), a hexadecimal one (\<^verbatim>\<open>0x\<close>, hexadecimal digits with an optional
  point, an optional binary exponent \<^verbatim>\<open>p\<close>, sign, digits), an infinity or a NaN, letters in
  either case. No such prefix raises \<^verbatim>\<open>std::invalid_argument\<close>; a range error raises
  \<^verbatim>\<open>std::out_of_range\<close>.

  What a floating-point type holds is the platform's. Each of the three types comes with
  its values (a type parameter) and with the way the exact value of a number, sign and
  magnitude, is rounded into the type (\<open>None\<close>: the conversion reports a range error),
  its infinities and its NaNs.
\<close>

record 'a floating =
  fp_nearest :: "bool \<Rightarrow> rat \<Rightarrow> 'a option"
  fp_infinity :: "bool \<Rightarrow> 'a"
  fp_nan :: "bool \<Rightarrow> 'a"

datatype subject = No_conversion | Number_of bool rat | Infinity_of bool | NaN_of bool

definition isxdigit :: "char \<Rightarrow> bool" where
  "isxdigit c \<longleftrightarrow> c \<in> set ''0123456789abcdefABCDEF''"

definition xdigit :: "char \<Rightarrow> int" where
  "xdigit c =
     (if isdigit c then of_char c - 48
      else if c \<in> set ''abcdef'' then of_char c - 87
      else of_char c - 55)"

definition hexadecimal :: "string \<Rightarrow> int" where
  "hexadecimal ds = foldl (\<lambda>n c. 16 * n + xdigit c) 0 ds"

definition scaled :: "int \<Rightarrow> rat \<Rightarrow> int \<Rightarrow> rat" where
  \<comment> \<open>\<open>m * b ^ k\<close> for an exponent of either sign\<close>
  "scaled m b k = (if 0 \<le> k then of_int m * b ^ nat k else of_int m / b ^ nat (- k))"

definition mantissa_parts :: "(char \<Rightarrow> bool) \<Rightarrow> string \<Rightarrow> string \<times> string \<times> string" where
  \<comment> \<open>the digits before the point, the digits after it, and what follows the mantissa\<close>
  "mantissa_parts P u =
     (let ip = takeWhile P u; r1 = dropWhile P u
      in case r1 of
           [] \<Rightarrow> (ip, [], r1)
         | c # t \<Rightarrow> if c = CHR ''.'' then (ip, takeWhile P t, dropWhile P t) else (ip, [], r1))"

definition exponent_part :: "string \<Rightarrow> string \<Rightarrow> int" where
  \<comment> \<open>an exponent counts only when a digit follows its letter and sign\<close>
  "exponent_part marks r =
     (case r of
        [] \<Rightarrow> 0
      | c # t \<Rightarrow>
          if c \<in> set marks
          then (let (neg, d) = strip_sign t; ds = takeWhile isdigit d
                in if ds = [] then 0 else if neg then - decimal ds else decimal ds)
          else 0)"

definition scan_decimal :: "string \<Rightarrow> rat option" where
  "scan_decimal u =
     (let (ip, fp, r) = mantissa_parts isdigit u
      in if ip = [] \<and> fp = [] then None
         else Some (scaled (decimal (ip @ fp)) 10 (exponent_part ''eE'' r - int (length fp))))"

definition scan_hex :: "string \<Rightarrow> rat option" where
  "scan_hex u =
     (case u of
        c0 # c1 # h \<Rightarrow>
          if c0 = CHR ''0'' \<and> c1 \<in> set ''xX''
          then (let (ip, fp, r) = mantissa_parts isxdigit h
                in if ip = [] \<and> fp = [] then None
                   else Some (scaled (hexadecimal (ip @ fp)) 2
                                (exponent_part ''pP'' r - 4 * int (length fp))))
          else None
      | _ \<Rightarrow> None)"

definition is_inf :: "string \<Rightarrow> bool" where
  "is_inf u =
     (case u of a # b # c # _ \<Rightarrow> a \<in> set ''iI'' \<and> b \<in> set ''nN'' \<and> c \<in> set ''fF'' | _ \<Rightarrow> False)"

definition is_nan :: "string \<Rightarrow> bool" where
  "is_nan u =
     (case u of a # b # c # _ \<Rightarrow> a \<in> set ''nN'' \<and> b \<in> set ''aA'' \<and> c \<in> set ''nN'' | _ \<Rightarrow> False)"

definition strto_floating :: "string \<Rightarrow> subject" where
  "strto_floating s =
     (let (neg, u) = strip_sign (dropWhile isspace s)
      in if is_inf u then Infinity_of neg
         else if is_nan u then NaN_of neg
         else (case scan_hex u of
                 Some q \<Rightarrow> Number_of neg q
               | None \<Rightarrow>
                   (case scan_decimal u of Some q \<Rightarrow> Number_of neg q | None \<Rightarrow> No_conversion)))"

definition stox :: "'a floating \<Rightarrow> string \<Rightarrow> string \<Rightarrow> exn + 'a" where
  "stox fmt name str =
     (case strto_floating str of
        No_conversion \<Rightarrow> Inl (invalid_argument name)
      | Number_of neg q \<Rightarrow>
          (case fp_nearest fmt neg q of None \<Rightarrow> Inl (out_of_range name) | Some x \<Rightarrow> Inr x)
      | Infinity_of neg \<Rightarrow> Inr (fp_infinity fmt neg)
      | NaN_of neg \<Rightarrow> Inr (fp_nan fmt neg))"

text \<open>
  What the sources leave to the platform and the model takes as parameters: the three
  floating-point types, the inserters for their values, and an inserter for
  \<^verbatim>\<open>DefaultValueType\<close> itself (the notice of \<^verbatim>\<open>EnvHelperWithDefault\<close> streams the
  object \<^verbatim>\<open>DefaultValue\<close>, and the header declares no inserter for it).
\<close>

record ('f, 'd, 'l) stdlib =
  float_format :: "'f floating"
  double_format :: "'d floating"
  long_double_format :: "'l floating"
  put_float :: "'f \<Rightarrow> string"
  put_double :: "'d \<Rightarrow> string"
  put_long_double :: "'l \<Rightarrow> string"
  put_DefaultValue :: "('f, 'd, 'l) DefaultValueType \<Rightarrow> string"

definition stof :: "('f, 'd, 'l) stdlib \<Rightarrow> string \<Rightarrow> exn + 'f" where
  "stof L str = stox (float_format L) ''stof'' str"

definition stod :: "('f, 'd, 'l) stdlib \<Rightarrow> string \<Rightarrow> exn + 'd" where
  "stod L str = stox (double_format L) ''stod'' str"

definition stold :: "('f, 'd, 'l) stdlib \<Rightarrow> string \<Rightarrow> exn + 'l" where
  "stold L str = stox (long_double_format L) ''stold'' str"

subsection \<open>The process: environment and streams\<close>

text \<open>
  \<^verbatim>\<open>std::getenv\<close> returns a null pointer (\<open>None\<close>) or a pointer to the variable's
  text; \<open>mem\<close> gives the characters of the NUL-terminated string stored at an address,
  terminator excluded.
\<close>

record environment =
  var :: "string \<rightharpoonup> addr"
  mem :: "addr \<Rightarrow> string"

definition getenv :: "environment \<Rightarrow> string \<Rightarrow> addr option" where
  "getenv E name = var E name"

record streams =
  cout :: string
  cerr :: string

definition to_cout :: "string \<Rightarrow> streams \<Rightarrow> streams" where
  "to_cout s io = io\<lparr>cout := cout io @ s\<rparr>"

definition to_cerr :: "string \<Rightarrow> streams \<Rightarrow> streams" where
  "to_cerr s io = io\<lparr>cerr := cerr io @ s\<rparr>"

definition view_chars ::
  "environment \<Rightarrow> ('f, 'd, 'l) DefaultValueType \<Rightarrow> string_view \<Rightarrow> string" where
  \<comment> \<open>the characters a view spans; a view over \<open>Storage\<close> exists only for an array default\<close>
  "view_chars E d v =
     take (sv_size v)
       (case sv_data v of
          Environ a \<Rightarrow> mem E a
        | Storage \<Rightarrow> (case dv_value d of CharArray buf \<Rightarrow> buf | Plain _ \<Rightarrow> []))"

definition put_scalar :: "('f, 'd, 'l) stdlib \<Rightarrow> ('f, 'd, 'l) scalar \<Rightarrow> string" where
  "put_scalar L x =
     (case x of
        V_int w \<Rightarrow> put_int (sint w)
      | V_long w \<Rightarrow> put_int (sint w)
      | V_long_long w \<Rightarrow> put_int (sint w)
      | V_float f \<Rightarrow> put_float L f
      | V_double f \<Rightarrow> put_double L f
      | V_long_double f \<Rightarrow> put_long_double L f
      | V_char c \<Rightarrow> [c])"

definition put_export ::
  "('f, 'd, 'l) stdlib \<Rightarrow> environment \<Rightarrow> ('f, 'd, 'l) DefaultValueType \<Rightarrow>
   ('f, 'd, 'l) ExportType \<Rightarrow> string" where
  \<comment> \<open>\<^verbatim>\<open>stream << DefaultValue.get()\<close>\<close>
  "put_export L E d x =
     (case x of Scalar y \<Rightarrow> put_scalar L y | StringView v \<Rightarrow> view_chars E d v)"

subsection \<open>The type-directed conversion\<close>

text \<open>
  The \<^verbatim>\<open>if constexpr\<close> chain inside the \<^verbatim>\<open>try\<close> block, the same in both resolvers
  (lines 107-123 and 158-173). \<^verbatim>\<open>std::stoi(env)\<close> reads the string at \<^verbatim>\<open>env\<close>;
  \<^verbatim>\<open>env[0]\<close> is its first byte, the terminator when the string is empty;
  \<^verbatim>\<open>std::string_view(env)\<close> is the pointer itself with the string's length.
\<close>

definition convert ::
  "('f, 'd, 'l) stdlib \<Rightarrow> Type \<Rightarrow> environment \<Rightarrow> addr \<Rightarrow> exn + ('f, 'd, 'l) ExportType" where
  "convert L ty E env =
     (case ty of
        T_int \<Rightarrow>
          (case stoi (mem E env) of Inl e \<Rightarrow> Inl e | Inr v \<Rightarrow> Inr (Scalar (V_int v)))
      | T_long \<Rightarrow>
          (case stol (mem E env) of Inl e \<Rightarrow> Inl e | Inr v \<Rightarrow> Inr (Scalar (V_long v)))
      | T_long_long \<Rightarrow>
          (case stoll (mem E env) of Inl e \<Rightarrow> Inl e | Inr v \<Rightarrow> Inr (Scalar (V_long_long v)))
      | T_float \<Rightarrow>
          (case stof L (mem E env) of Inl e \<Rightarrow> Inl e | Inr v \<Rightarrow> Inr (Scalar (V_float v)))
      | T_double \<Rightarrow>
          (case stod L (mem E env) of Inl e \<Rightarrow> Inl e | Inr v \<Rightarrow> Inr (Scalar (V_double v)))
      | T_long_double \<Rightarrow>
          (case stold L (mem E env) of Inl e \<Rightarrow> Inl e
           | Inr v \<Rightarrow> Inr (Scalar (V_long_double v)))
      | T_char \<Rightarrow>
          Inr (Scalar (V_char (case mem E env of [] \<Rightarrow> NUL | c # _ \<Rightarrow> c)))
      | T_string_view \<Rightarrow>
          Inr (StringView \<lparr>sv_data = Environ env, sv_size = length (mem E env)\<rparr>))"

subsection \<open>EnvHelperWithDefault\<close>

record ('f, 'd, 'l) config =
  EnvName :: FixedString
  DefaultValue :: "('f, 'd, 'l) DefaultValueType"
  EnableValueMessage :: bool

definition name_of :: "FixedString \<Rightarrow> string" where
  \<comment> \<open>\<^verbatim>\<open>EnvName.value\<close> read as a C string\<close>
  "name_of n = c_str (fs_value n)"

definition conversion_failed_default ::
  "('f, 'd, 'l) stdlib \<Rightarrow> ('f, 'd, 'l) config \<Rightarrow> environment \<Rightarrow> addr \<Rightarrow> exn \<Rightarrow> string" where
  \<comment> \<open>the two lines the \<^verbatim>\<open>catch\<close> clause of lines 124-128 writes to \<^verbatim>\<open>std::cerr\<close>\<close>
  "conversion_failed_default L C E env e =
     ''[EnvHelper] '' @ name_of (EnvName C) @ '' conversion failed: (env='' @ [CHR 0x27]
       @ mem E env @ [CHR 0x27] @ ''), using default value: ''
       @ put_export L E (DefaultValue C) (DefaultValueType_get (DefaultValue C)) @ endl
       @ what e @ endl"

definition initializer ::
  "('f, 'd, 'l) stdlib \<Rightarrow> ('f, 'd, 'l) config \<Rightarrow> environment \<Rightarrow> streams \<Rightarrow>
   (exn + ('f, 'd, 'l) ExportType) \<times> streams" where
  \<comment> \<open>the lambda that initialises the static \<^verbatim>\<open>value\<close> (lines 94-129)\<close>
  "initializer L C E io =
     (case getenv E (name_of (EnvName C)) of
        None \<Rightarrow>
          (Inr (DefaultValueType_get (DefaultValue C)),
           if EnableValueMessage C
           then to_cout (name_of (EnvName C) @ '' is not set, using default: ''
                          @ put_DefaultValue L (DefaultValue C) @ [CHR 0x0A]) io
           else io)
      | Some env \<Rightarrow>
          let io1 = (if EnableValueMessage C
                     then to_cout (name_of (EnvName C) @ '' is set to: '' @ mem E env @ [CHR 0x0A]) io
                     else io)
          in (case convert L (type_of (DefaultValueType_get (DefaultValue C))) E env of
                Inr v \<Rightarrow> (Inr v, io1)
              | Inl e \<Rightarrow>
                  (Inr (DefaultValueType_get (DefaultValue C)),
                   to_cerr (conversion_failed_default L C E env e) io1)))"

text \<open>
  The function-local \<^verbatim>\<open>static auto value\<close>: \<open>None\<close> until its initialiser has
  completed. An initialiser that exits by an exception leaves it uninitialised, and the
  next call runs the initialiser again.
\<close>

record ('f, 'd, 'l) static_state =
  static_value :: "('f, 'd, 'l) ExportType option"
  std_streams :: streams

definition EnvHelperWithDefault_get ::
  "('f, 'd, 'l) stdlib \<Rightarrow> ('f, 'd, 'l) config \<Rightarrow> environment \<Rightarrow> ('f, 'd, 'l) static_state \<Rightarrow>
   (exn + ('f, 'd, 'l) ExportType) \<times> ('f, 'd, 'l) static_state" where
  "EnvHelperWithDefault_get L C E st =
     (case static_value st of
        Some v \<Rightarrow> (Inr v, st)
      | None \<Rightarrow>
          (case initializer L C E (std_streams st) of
             (Inr v, io') \<Rightarrow> (Inr v, \<lparr>static_value = Some v, std_streams = io'\<rparr>)
           | (Inl e, io') \<Rightarrow> (Inl e, \<lparr>static_value = None, std_streams = io'\<rparr>)))"

subsection \<open>EnvHelper\<close>

definition not_set_message :: "FixedString \<Rightarrow> string" where
  "not_set_message n = name_of n @ '' is not set and no default value is provided.''"

definition conversion_failed ::
  "FixedString \<Rightarrow> environment \<Rightarrow> addr \<Rightarrow> exn \<Rightarrow> string" where
  \<comment> \<open>the two lines the \<^verbatim>\<open>catch\<close> clause of lines 177-181 writes to \<^verbatim>\<open>std::cerr\<close>\<close>
  "conversion_failed n E env e =
     ''[EnvHelperNoDefault] '' @ name_of n @ '' conversion failed: (env='' @ [CHR 0x27]
       @ mem E env @ [CHR 0x27] @ '')'' @ endl @ what e @ endl"

definition EnvHelper_get ::
  "('f, 'd, 'l) stdlib \<Rightarrow> FixedString \<Rightarrow> Type \<Rightarrow> bool \<Rightarrow> environment \<Rightarrow> streams \<Rightarrow>
   (exn + ('f, 'd, 'l) ExportType) \<times> streams" where
  "EnvHelper_get L n ty msg E io =
     (case getenv E (name_of n) of
        None \<Rightarrow>
          (Inl (runtime_error (not_set_message n)),
           to_cerr (not_set_message n @ [CHR 0x0A]) io)
      | Some env \<Rightarrow>
          let io1 = (if msg then to_cout (name_of n @ '' is set to: '' @ mem E env @ [CHR 0x0A]) io
                     else io)
          in (case convert L ty E env of
                Inr v \<Rightarrow> (Inr v, io1)
              | Inl e \<Rightarrow> (Inl e, to_cerr (conversion_failed n E env e) io1)))"

subsection \<open>A caller that calls get() repeatedly\<close>

text \<open>
  The environment may differ from one call to the next (somebody else changes it in
  between); the static and the streams are carried from call to call. The caller of
  \<^verbatim>\<open>EnvHelper::get\<close> catches what a call throws and goes on.
\<close>

fun calls ::
  "('f, 'd, 'l) stdlib \<Rightarrow> ('f, 'd, 'l) config \<Rightarrow> environment list \<Rightarrow> ('f, 'd, 'l) static_state \<Rightarrow>
   (exn + ('f, 'd, 'l) ExportType) list \<times> ('f, 'd, 'l) static_state" where
  "calls L C [] st = ([], st)"
| "calls L C (E # Es) st =
     (case EnvHelperWithDefault_get L C E st of
        (r, st') \<Rightarrow> (case calls L C Es st' of (rs, st'') \<Rightarrow> (r # rs, st'')))"

fun calls_required ::
  "('f, 'd, 'l) stdlib \<Rightarrow> FixedString \<Rightarrow> Type \<Rightarrow> bool \<Rightarrow> environment list \<Rightarrow> streams \<Rightarrow>
   (exn + ('f, 'd, 'l) ExportType) list \<times> streams" where
  "calls_required L n ty msg [] io = ([], io)"
| "calls_required L n ty msg (E # Es) io =
     (case EnvHelper_get L n ty msg E io of
        (r, io') \<Rightarrow> (case calls_required L n ty msg Es io' of (rs, io'') \<Rightarrow> (r # rs, io'')))"

definition resolve ::
  "('f, 'd, 'l) stdlib \<Rightarrow> FixedString \<Rightarrow> Type \<Rightarrow> environment \<Rightarrow> exn + ('f, 'd, 'l) ExportType" where
  \<comment> \<open>what a lookup and a parse in the environment \<open>E\<close> give, with no memory of earlier calls\<close>
  "resolve L n ty E =
     (case getenv E (name_of n) of
        None \<Rightarrow> Inl (runtime_error (not_set_message n))
      | Some env \<Rightarrow> convert L ty E env)"

subsection \<open>Notions of the specification\<close>

text \<open>
  A decimal literal: an optional sign and one or more digits, nothing else. The value it
  is "a valid textual representation" of is the number it denotes.
\<close>

definition decimal_literal :: "string \<Rightarrow> int option" where
  "decimal_literal s =
     (let (neg, ds) = strip_sign s
      in if ds \<noteq> [] \<and> list_all isdigit ds
         then Some (if neg then - decimal ds else decimal ds) else None)"

definition in_range :: "nat \<Rightarrow> int \<Rightarrow> bool" where
  "in_range bits n \<longleftrightarrow> - (2 ^ (bits - 1)) \<le> n \<and> n < 2 ^ (bits - 1)"

text \<open>
  The value a resolver is expected to produce: a scalar, or a text (for the text target
  the resolver returns a view, and the value is the characters the view spans).
\<close>

datatype ('f, 'd, 'l) denoted = Number "('f, 'd, 'l) scalar" | Text string

fun denoted_type :: "('f, 'd, 'l) denoted \<Rightarrow> Type" where
  "denoted_type (Number x) = scalar_type x"
| "denoted_type (Text _) = T_string_view"

definition value_of ::
  "environment \<Rightarrow> ('f, 'd, 'l) DefaultValueType \<Rightarrow> ('f, 'd, 'l) ExportType \<Rightarrow> ('f, 'd, 'l) denoted" where
  "value_of E d r = (case r of Scalar x \<Rightarrow> Number x | StringView v \<Rightarrow> Text (view_chars E d v))"

text \<open>
  A decimal floating literal: an optional sign, digits with an optional point and at least
  one digit, and an optional exponent (\<^verbatim>\<open>e\<close> or \<^verbatim>\<open>E\<close>, an optional sign, one or more
  digits), nothing else. It is split at the exponent letter and at the point; its value
  is the sign and the exact rational magnitude it denotes.
\<close>

definition exponent_text :: "string \<Rightarrow> int option" where
  "exponent_text x =
     (case x of
        [] \<Rightarrow> Some 0
      | c # t \<Rightarrow>
          (let (neg, ds) = strip_sign t
           in if c \<in> set ''eE'' \<and> ds \<noteq> [] \<and> list_all isdigit ds
              then Some (if neg then - decimal ds else decimal ds) else None))"

definition float_literal :: "string \<Rightarrow> (bool \<times> rat) option" where
  "float_literal s =
     (let (neg, b) = strip_sign s;
          m = takeWhile (\<lambda>c. c \<notin> set ''eE'') b;
          x = dropWhile (\<lambda>c. c \<notin> set ''eE'') b;
          ip = takeWhile (\<lambda>c. c \<noteq> CHR ''.'') m;
          fp = drop 1 (dropWhile (\<lambda>c. c \<noteq> CHR ''.'') m)
      in if list_all isdigit ip \<and> list_all isdigit fp \<and> (ip \<noteq> [] \<or> fp \<noteq> [])
         then (case exponent_text x of
                 None \<Rightarrow> None
               | Some e \<Rightarrow> Some (neg, scaled (decimal (ip @ fp)) 10 (e - int (length fp))))
         else None)"

definition rounds_to :: "'a floating \<Rightarrow> string \<Rightarrow> 'a \<Rightarrow> bool" where
  \<comment> \<open>the text is a decimal floating literal, and its exact value rounds to \<open>f\<close>\<close>
  "rounds_to fmt s f =
     (case float_literal s of None \<Rightarrow> False | Some (neg, q) \<Rightarrow> fp_nearest fmt neg q = Some f)"

text \<open>
  \<open>textual L s v\<close>: the string \<open>s\<close> is a valid textual representation of \<open>v\<close>. For the
  integer types it is a decimal literal of that value; for the floating-point types, a
  decimal floating literal whose exact value the type holds as \<open>v\<close>; for a character,
  the string of that one character; for a text, the text itself.
\<close>

fun textual :: "('f, 'd, 'l) stdlib \<Rightarrow> string \<Rightarrow> ('f, 'd, 'l) denoted \<Rightarrow> bool" where
  "textual L s (Number (V_int w)) \<longleftrightarrow> decimal_literal s = Some (sint w)"
| "textual L s (Number (V_long w)) \<longleftrightarrow> decimal_literal s = Some (sint w)"
| "textual L s (Number (V_long_long w)) \<longleftrightarrow> decimal_literal s = Some (sint w)"
| "textual L s (Number (V_float f)) \<longleftrightarrow> rounds_to (float_format L) s f"
| "textual L s (Number (V_double f)) \<longleftrightarrow> rounds_to (double_format L) s f"
| "textual L s (Number (V_long_double f)) \<longleftrightarrow> rounds_to (long_double_format L) s f"
| "textual L s (Number (V_char c)) \<longleftrightarrow> s = [c]"
| "textual L s (Text t) \<longleftrightarrow> s = t"





definition ends_floating :: "string \<Rightarrow> bool" where
  "ends_floating rest = (case rest of [] \<Rightarrow> True | c # _ \<Rightarrow> c \<notin> set ''0123456789.eExX'')"


subsection \<open>Example configurations\<close>

text \<open>
  Two platforms: one whose floating-point types hold no finite number (every number is
  out of range), and an idealised one whose floating-point types hold every rational
  exactly. The environment in which only \<^verbatim>\<open>PORT\<close> is set, and configurations after the
  README and \<^verbatim>\<open>main.cpp\<close>: \<^verbatim>\<open>EnvHelperWithDefault<"PORT", 42>\<close>, and the same with the
  defaults \<^verbatim>\<open>7L\<close>, \<^verbatim>\<open>'a'\<close>, \<^verbatim>\<open>"/tmp"\<close> and \<^verbatim>\<open>123.4\<close>.
\<close>

definition no_finite :: "unit floating" where
  "no_finite = \<lparr>fp_nearest = (\<lambda>neg q. None), fp_infinity = (\<lambda>neg. ()), fp_nan = (\<lambda>neg. ())\<rparr>"

definition no_floats :: "(unit, unit, unit) stdlib" where
  "no_floats =
     \<lparr>float_format = no_finite, double_format = no_finite, long_double_format = no_finite,
      put_float = (\<lambda>f. []), put_double = (\<lambda>f. []), put_long_double = (\<lambda>f. []),
      put_DefaultValue = (\<lambda>d. [])\<rparr>"

datatype ideal = Ideal_number rat | Ideal_infinity bool | Ideal_NaN

definition every_rational :: "ideal floating" where
  "every_rational =
     \<lparr>fp_nearest = (\<lambda>neg q. Some (Ideal_number (if neg then - q else q))),
      fp_infinity = Ideal_infinity, fp_nan = (\<lambda>neg. Ideal_NaN)\<rparr>"

definition exact_floats :: "(ideal, ideal, ideal) stdlib" where
  "exact_floats =
     \<lparr>float_format = every_rational, double_format = every_rational,
      long_double_format = every_rational,
      put_float = (\<lambda>f. []), put_double = (\<lambda>f. []), put_long_double = (\<lambda>f. []),
      put_DefaultValue = (\<lambda>d. [])\<rparr>"

definition port_set_to :: "string \<Rightarrow> environment" where
  "port_set_to s = \<lparr>var = [''PORT'' \<mapsto> 7], mem = (\<lambda>a. if a = 7 then s else [])\<rparr>"

definition nothing_set :: environment where
  "nothing_set = \<lparr>var = Map.empty, mem = (\<lambda>a. [])\<rparr>"

definition PORT :: FixedString where
  "PORT = FixedString_of (''PORT'' @ [NUL])"

definition port_or_42 :: "(unit, unit, unit) config" where
  "port_or_42 =
     \<lparr>EnvName = PORT, DefaultValue = DefaultValueType_of_val (V_int 42),
      EnableValueMessage = False\<rparr>"

definition port_or_a :: "(unit, unit, unit) config" where
  "port_or_a =
     \<lparr>EnvName = PORT, DefaultValue = DefaultValueType_of_val (V_char CHR ''a''),
      EnableValueMessage = False\<rparr>"

definition port_or_tmp :: "(unit, unit, unit) config" where
  "port_or_tmp =
     \<lparr>EnvName = PORT, DefaultValue = DefaultValueType_of_str (''/tmp'' @ [NUL]),
      EnableValueMessage = False\<rparr>"

definition port_or_7 :: "(unit, unit, unit) config" where
  "port_or_7 =
     \<lparr>EnvName = PORT, DefaultValue = DefaultValueType_of_val (V_long 7),
      EnableValueMessage = False\<rparr>"

definition port_or_123_4 :: "(ideal, ideal, ideal) config" where
  "port_or_123_4 =
     \<lparr>EnvName = PORT, DefaultValue = DefaultValueType_of_val (V_double (Ideal_number (1234 / 10))),
      EnableValueMessage = False\<rparr>"

definition start :: "(unit, unit, unit) static_state" where
  "start = \<lparr>static_value = None, std_streams = \<lparr>cout = [], cerr = []\<rparr>\<rparr>"

definition start_exact :: "(ideal, ideal, ideal) static_state" where
  "start_exact = \<lparr>static_value = None, std_streams = \<lparr>cout = [], cerr = []\<rparr>\<rparr>"

section \<open>Properties\<close>

subsection \<open>The constructors copy their literal\<close>

lemma copy_loop_copies:
  "length val = length str \<Longrightarrow> i \<le> length str \<Longrightarrow> take i val = take i str \<Longrightarrow>
   copy_loop i (length str) str val = str"
proof (induction i "length str" str val rule: copy_loop.induct)
  case (1 i str val)
  show ?case
  proof (cases "i < length str")
    case True
    have "take (i + 1) (val[i := str ! i]) = take (i + 1) str"
      using True 1 by (simp add: take_Suc_conv_app_nth)
    with True 1 show ?thesis by (simp add: copy_loop.simps [of i])
  next
    case False
    with 1 have "val = str" by simp
    with False show ?thesis by (subst copy_loop.simps) simp
  qed
qed

lemma FixedString_of_value [simp]: "fs_value (FixedString_of str) = str"
  by (simp add: FixedString_of_def copy_loop_copies)

lemma DefaultValueType_of_str_value [simp]:
  "dv_value (DefaultValueType_of_str str) = CharArray str"
  by (simp add: DefaultValueType_of_str_def copy_loop_copies)

lemma c_str_literal: "NUL \<notin> set s \<Longrightarrow> c_str (s @ NUL # t) = s"
  by (auto simp: c_str_def takeWhile_tail)

lemma name_of_literal: "NUL \<notin> set s \<Longrightarrow> name_of (FixedString_of (s @ [NUL])) = s"
  by (simp add: name_of_def c_str_literal)

lemma FixedString_view_literal: "FixedString_view (FixedString_of (s @ [c])) = s"
  by (simp add: FixedString_view_def)

subsection \<open>The integer conversions\<close>

lemma isdigit_not_isspace: "isdigit c \<Longrightarrow> \<not> isspace c"
  by (auto simp: isdigit_def isspace_def)

lemma isdigit_not_sign: "isdigit c \<Longrightarrow> c \<noteq> CHR ''-'' \<and> c \<noteq> CHR ''+''"
  by (auto simp: isdigit_def)

lemma sign_not_isspace: "\<not> isspace (CHR ''-'')" "\<not> isspace (CHR ''+'')"
  by (simp_all add: isspace_def)

lemma decimal_literal_nonempty:
  "decimal_literal lit = Some n \<Longrightarrow> lit \<noteq> [] \<and> \<not> isspace (hd lit)"
  by (auto simp: decimal_literal_def strip_sign_def sign_not_isspace isdigit_not_isspace
      split: list.splits if_splits)

lemma dropWhile_isspace_literal:
  assumes "list_all isspace ws" and "decimal_literal lit = Some n"
  shows "dropWhile isspace (ws @ lit @ rest) = lit @ rest"
proof -
  from assms(2) obtain c r where lit: "lit = c # r" and c: "\<not> isspace c"
    using decimal_literal_nonempty [OF assms(2)] by (cases lit) auto
  have "dropWhile isspace (ws @ lit @ rest) = dropWhile isspace (lit @ rest)"
    using assms(1) by (simp add: dropWhile_append list_all_iff)
  with lit c show ?thesis by simp
qed

lemma takeWhile_digits:
  "list_all isdigit ds \<Longrightarrow> takeWhile isdigit rest = [] \<Longrightarrow> takeWhile isdigit (ds @ rest) = ds"
  by (simp add: takeWhile_append list_all_iff)

text \<open>
  Leading whitespace is skipped and the conversion stops at the first character that is
  not a digit: what follows the literal does not matter.
\<close>

lemma strto_integer_prefix:
  assumes ws: "list_all isspace ws"
      and lit: "decimal_literal lit = Some n"
      and rest: "takeWhile isdigit rest = []"
  shows "strto_integer (ws @ lit @ rest) = Some n"
proof -
  obtain neg ds where sg: "strip_sign lit = (neg, ds)" by (cases "strip_sign lit")
  with lit have ds: "ds \<noteq> []" "list_all isdigit ds"
    and n: "n = (if neg then - decimal ds else decimal ds)"
    by (auto simp: decimal_literal_def split: if_splits)
  have "strip_sign (lit @ rest) = (neg, ds @ rest)"
    using sg ds by (cases lit) (auto simp: strip_sign_def split: if_splits)
  moreover have "takeWhile isdigit (ds @ rest) = ds"
    using ds rest by (rule_tac takeWhile_digits)
  ultimately show ?thesis
    using ds n by (simp add: strto_integer_def dropWhile_isspace_literal [OF ws lit])
qed

lemma strto_integer_literal: "decimal_literal s = Some n \<Longrightarrow> strto_integer s = Some n"
  using strto_integer_prefix [of "[]" s n "[]"] by simp

lemma stoa_prefix:
  assumes "list_all isspace ws" and "decimal_literal lit = Some n"
      and "takeWhile isdigit rest = []" and "in_range bits n"
  shows "stoa bits name (ws @ lit @ rest) = Inr n"
  using assms by (simp add: stoa_def in_range_def strto_integer_prefix)

lemma stoa_literal:
  "decimal_literal s = Some n \<Longrightarrow> in_range bits n \<Longrightarrow> stoa bits name s = Inr n"
  using stoa_prefix [of "[]" s n "[]"] by simp

lemma stoa_no_conversion:
  "strto_integer s = None \<Longrightarrow> stoa bits name s = Inl (invalid_argument name)"
  by (simp add: stoa_def)

lemma stoa_out_of_range:
  "strto_integer s = Some n \<Longrightarrow> \<not> in_range bits n \<Longrightarrow> stoa bits name s = Inl (out_of_range name)"
  by (auto simp: stoa_def in_range_def)

lemma strto_integer_empty: "strto_integer [] = None"
  by (simp add: strto_integer_def strip_sign_def)

lemma sint_in_range_32: "in_range 32 (sint (w :: 32 word))"
  using sint_range_size [of w] by (simp add: in_range_def word_size)

lemma sint_in_range_64: "in_range 64 (sint (w :: 64 word))"
  using sint_range_size [of w] by (simp add: in_range_def word_size)

subsection \<open>Printing an integer gives a literal of that integer\<close>

lemma digit_chars:
  "map (\<lambda>k. char_of (48 + k)) [0, 1, 2, 3, 4, 5, 6, 7, 8, 9 :: int] = ''0123456789''"
  by code_simp

lemma digit_char:
  fixes k :: int
  assumes "0 \<le> k" and "k < 10"
  shows "isdigit (char_of (48 + k)) \<and> digit (char_of (48 + k)) = k"
proof -
  from assms have "k = 0 \<or> k = 1 \<or> k = 2 \<or> k = 3 \<or> k = 4 \<or> k = 5 \<or> k = 6 \<or> k = 7
      \<or> k = 8 \<or> k = 9"
    by arith
  then show ?thesis
    using digit_chars by (auto simp: isdigit_def digit_def)
qed

lemma decimal_snoc: "decimal (ds @ [c]) = 10 * decimal ds + digit c"
  by (simp add: decimal_def)

lemma digits_of_decimal:
  "0 \<le> n \<Longrightarrow> digits_of n \<noteq> [] \<and> list_all isdigit (digits_of n) \<and> decimal (digits_of n) = n"
proof (induction n rule: digits_of.induct)
  case (1 n)
  show ?case
  proof (cases "n < 10")
    case True
    with 1(2) digit_char [of n] show ?thesis
      by (subst (1 2 3) digits_of.simps) (simp add: decimal_def)
  next
    case False
    then have ih: "digits_of (n div 10) \<noteq> [] \<and> list_all isdigit (digits_of (n div 10))
        \<and> decimal (digits_of (n div 10)) = n div 10"
      using 1 by simp
    have "0 \<le> n mod 10" "n mod 10 < 10" by simp_all
    from digit_char [OF this] ih False show ?thesis
      by (subst (1 2 3) digits_of.simps) (simp add: decimal_snoc)
  qed
qed

lemma strip_sign_digits:
  "ds \<noteq> [] \<Longrightarrow> list_all isdigit ds \<Longrightarrow> strip_sign ds = (False, ds)"
  by (cases ds) (auto simp: strip_sign_def dest: isdigit_not_sign)

lemma decimal_literal_put_int: "decimal_literal (put_int n) = Some n"
proof (cases "n < 0")
  case True
  then have "0 \<le> - n" by simp
  from digits_of_decimal [OF this] True show ?thesis
    by (simp add: decimal_literal_def put_int_def strip_sign_def)
next
  case False
  then have "0 \<le> n" by simp
  from digits_of_decimal [OF this] False show ?thesis
    by (simp add: decimal_literal_def put_int_def strip_sign_digits)
qed

lemma stoi_put_int: "stoi (put_int (sint w)) = Inr w"
  by (simp add: stoi_def stoa_literal decimal_literal_put_int sint_in_range_32)

lemma stol_put_int: "stol (put_int (sint w)) = Inr w"
  by (simp add: stol_def stoa_literal decimal_literal_put_int sint_in_range_64)

lemma stoll_put_int: "stoll (put_int (sint w)) = Inr w"
  by (simp add: stoll_def stoa_literal decimal_literal_put_int sint_in_range_64)

subsection \<open>The floating-point conversions\<close>

lemma dropWhile_digits:
  "list_all isdigit ds \<Longrightarrow> takeWhile isdigit rest = [] \<Longrightarrow> dropWhile isdigit (ds @ rest) = rest"
  by (cases rest) (auto simp: dropWhile_append list_all_iff split: if_splits)

lemma strip_sign_append:
  "strip_sign lit = (neg, b) \<Longrightarrow> b \<noteq> [] \<Longrightarrow> strip_sign (lit @ rest) = (neg, b @ rest)"
  by (cases lit) (auto simp: strip_sign_def split: if_splits)

lemma ends_floating_cases:
  assumes "ends_floating rest"
  shows "takeWhile isdigit rest = []"
    and "rest = [] \<or> hd rest \<notin> set ''.eExX''"
  using assms by (cases rest; simp add: ends_floating_def isdigit_def)+

lemma exponent_text_start:
  "exponent_text x = Some e \<Longrightarrow> x = [] \<or> hd x \<in> set ''eE''"
  by (cases x) (auto simp: exponent_text_def split: prod.splits if_splits)

lemma exponent_part_literal:
  assumes "exponent_text x = Some e" and "ends_floating rest"
  shows "exponent_part ''eE'' (x @ rest) = e"
proof (cases x)
  case Nil
  with assms show ?thesis
    by (cases rest) (auto simp: exponent_text_def exponent_part_def ends_floating_def)
next
  case (Cons c t)
  obtain en ds where sg: "strip_sign t = (en, ds)" by (cases "strip_sign t")
  with Cons assms(1) have c: "c \<in> set ''eE''" and ds: "ds \<noteq> []" "list_all isdigit ds"
    and e: "e = (if en then - decimal ds else decimal ds)"
    by (auto simp: exponent_text_def split: if_splits)
  have "strip_sign (t @ rest) = (en, ds @ rest)"
    using sg ds(1) by (rule strip_sign_append)
  moreover have "takeWhile isdigit (ds @ rest) = ds"
    using ds(2) ends_floating_cases(1) [OF assms(2)] by (rule takeWhile_digits)
  ultimately show ?thesis
    using Cons c ds e by (simp add: exponent_part_def)
qed

lemma mantissa_parts_literal:
  assumes ip: "list_all isdigit ip" and fp: "list_all isdigit fp"
      and fr: "fr = [] \<and> fp = [] \<or> fr = CHR ''.'' # fp"
      and tail: "takeWhile isdigit tail = []" "tail = [] \<or> hd tail \<noteq> CHR ''.''"
  shows "mantissa_parts isdigit (ip @ fr @ tail) = (ip, fp, tail)"
proof (cases "fr = []")
  case True
  with fr have "fp = []" by simp
  have split: "takeWhile isdigit (ip @ tail) = ip" "dropWhile isdigit (ip @ tail) = tail"
    using ip tail(1) by (simp_all add: takeWhile_digits dropWhile_digits)
  show ?thesis
  proof (cases tail)
    case Nil
    with split have "takeWhile isdigit ip = ip" "dropWhile isdigit ip = []" by simp_all
    with True \<open>fp = []\<close> Nil show ?thesis
      by (simp add: mantissa_parts_def del: takeWhile_eq_all_conv dropWhile_eq_Nil_conv)
  next
    case (Cons c t)
    with tail(2) have "c \<noteq> CHR ''.''" by simp
    with True \<open>fp = []\<close> split Cons show ?thesis
      by (simp add: mantissa_parts_def)
  qed
next
  case False
  with fr have fr': "fr = CHR ''.'' # fp" by simp
  have nd: "\<not> isdigit (CHR ''.'')" by (simp add: isdigit_def)
  have "takeWhile isdigit (ip @ CHR ''.'' # fp @ tail) = ip"
    "dropWhile isdigit (ip @ CHR ''.'' # fp @ tail) = CHR ''.'' # fp @ tail"
    using ip nd by (simp_all add: takeWhile_digits dropWhile_digits)
  moreover have "takeWhile isdigit (fp @ tail) = fp" "dropWhile isdigit (fp @ tail) = tail"
    using fp tail(1) by (simp_all add: takeWhile_digits dropWhile_digits)
  ultimately show ?thesis
    using fr' by (simp add: mantissa_parts_def)
qed

lemma float_literal_parts:
  assumes "float_literal lit = Some (neg, q)"
  obtains b ip fr fp x e where
    "strip_sign lit = (neg, b)" "b = ip @ fr @ x"
    "fr = [] \<and> fp = [] \<or> fr = CHR ''.'' # fp"
    "list_all isdigit ip" "list_all isdigit fp" "ip \<noteq> [] \<or> fp \<noteq> []"
    "exponent_text x = Some e"
    "q = scaled (decimal (ip @ fp)) 10 (e - int (length fp))"
proof -
  obtain n b where sg: "strip_sign lit = (n, b)" by (cases "strip_sign lit")
  define m where "m = takeWhile (\<lambda>c. c \<notin> set ''eE'') b"
  define x where "x = dropWhile (\<lambda>c. c \<notin> set ''eE'') b"
  define ip where "ip = takeWhile (\<lambda>c. c \<noteq> CHR ''.'') m"
  define fr where "fr = dropWhile (\<lambda>c. c \<noteq> CHR ''.'') m"
  define fp where "fp = drop 1 fr"
  have "m @ x = b" "ip @ fr = m"
    unfolding m_def x_def ip_def fr_def by (rule takeWhile_dropWhile_id)+
  then have b: "b = ip @ fr @ x" by (metis append_assoc)
  have fr: "fr = [] \<and> fp = [] \<or> fr = CHR ''.'' # fp"
  proof (cases fr)
    case Nil
    then show ?thesis by (simp add: fp_def)
  next
    case (Cons c t)
    then have "\<not> (hd fr \<noteq> CHR ''.'')"
      unfolding fr_def using hd_dropWhile [of "\<lambda>c. c \<noteq> CHR ''.''" m] by fastforce
    with Cons show ?thesis by (simp add: fp_def)
  qed
  from assms sg have ok: "list_all isdigit ip" "list_all isdigit fp" "ip \<noteq> [] \<or> fp \<noteq> []"
    and ex: "\<exists>e. exponent_text x = Some e
          \<and> (n, scaled (decimal (ip @ fp)) 10 (e - int (length fp))) = (neg, q)"
    unfolding float_literal_def Let_def m_def x_def ip_def fr_def fp_def
    by (auto split: if_splits option.splits)
  from ex obtain e where "exponent_text x = Some e" "n = neg"
    "q = scaled (decimal (ip @ fp)) 10 (e - int (length fp))"
    by auto
  with sg b fr ok that show thesis by blast
qed

lemma float_literal_body_start:
  assumes "fr = [] \<and> fp = [] \<or> fr = CHR ''.'' # fp" "list_all isdigit ip" "ip \<noteq> [] \<or> fp \<noteq> []"
  shows "ip @ fr @ x \<noteq> [] \<and> (isdigit (hd (ip @ fr @ x)) \<or> hd (ip @ fr @ x) = CHR ''.'')"
  using assms by (cases ip) auto

lemma not_special:
  assumes "u \<noteq> []" "isdigit (hd u) \<or> hd u = CHR ''.''"
  shows "\<not> is_inf u" "\<not> is_nan u"
  using assms by (cases u; auto simp: is_inf_def is_nan_def isdigit_def split: list.splits)+

lemma scan_hex_literal:
  assumes ip: "list_all isdigit ip" and fp: "list_all isdigit fp"
      and fr: "fr = [] \<and> fp = [] \<or> fr = CHR ''.'' # fp"
      and ne: "ip \<noteq> [] \<or> fp \<noteq> []"
      and x: "x = [] \<or> hd x \<in> set ''eE''"
      and rest: "rest = [] \<or> hd rest \<notin> set ''.eExX''"
  shows "scan_hex (ip @ fr @ x @ rest) = None"
proof (cases ip)
  case Nil
  with fr ne have "ip @ fr @ x @ rest = CHR ''.'' # fp @ x @ rest" by auto
  then show ?thesis
    by (cases "fp @ x @ rest") (simp_all add: scan_hex_def)
next
  case (Cons d ds)
  define t where "t = ds @ fr @ x @ rest"
  have u: "ip @ fr @ x @ rest = d # t"
    using Cons by (simp add: t_def)
  have second: "t = [] \<or> hd t \<notin> set ''xX''"
  proof (cases ds)
    case (Cons d' ds')
    with ip \<open>ip = d # ds\<close> show ?thesis by (auto simp: t_def isdigit_def)
  next
    case Nil
    with fr x rest show ?thesis
      unfolding t_def by (cases fr; cases x; cases rest) auto
  qed
  then show ?thesis
    unfolding u by (cases t) (auto simp: scan_hex_def)
qed

lemma strto_floating_prefix:
  assumes ws: "list_all isspace ws"
      and lit: "float_literal lit = Some (neg, q)"
      and rest: "ends_floating rest"
  shows "strto_floating (ws @ lit @ rest) = Number_of neg q"
proof -
  from lit obtain b ip fr fp x e where
    sg: "strip_sign lit = (neg, b)" and b: "b = ip @ fr @ x"
    and fr: "fr = [] \<and> fp = [] \<or> fr = CHR ''.'' # fp"
    and ip: "list_all isdigit ip" and fp: "list_all isdigit fp" and ne: "ip \<noteq> [] \<or> fp \<noteq> []"
    and ex: "exponent_text x = Some e"
    and q: "q = scaled (decimal (ip @ fp)) 10 (e - int (length fp))"
    by (rule float_literal_parts)
  have start: "b \<noteq> []" "isdigit (hd b) \<or> hd b = CHR ''.''"
    using float_literal_body_start [OF fr ip ne, of x] b by simp_all
  have x: "x = [] \<or> hd x \<in> set ''eE''"
    using ex by (rule exponent_text_start)
  note r = ends_floating_cases [OF rest]
  have lit_start: "lit \<noteq> [] \<and> \<not> isspace (hd lit)"
    using sg start by (cases lit) (auto simp: strip_sign_def isspace_def isdigit_def split: if_splits)
  have "dropWhile isspace (ws @ lit @ rest) = dropWhile isspace (lit @ rest)"
    using ws by (simp add: dropWhile_append list_all_iff)
  also have "\<dots> = lit @ rest"
    using lit_start by (cases lit) auto
  finally have skip: "dropWhile isspace (ws @ lit @ rest) = lit @ rest" .
  have sign: "strip_sign (lit @ rest) = (neg, b @ rest)"
    using sg start(1) by (rule strip_sign_append)
  have u_start: "b @ rest \<noteq> []" "isdigit (hd (b @ rest)) \<or> hd (b @ rest) = CHR ''.''"
    using start by simp_all
  have special: "\<not> is_inf (b @ rest)" "\<not> is_nan (b @ rest)"
    using not_special [OF u_start] by simp_all
  have hex: "scan_hex (b @ rest) = None"
    using scan_hex_literal [OF ip fp fr ne x r(2)] b by simp
  have tail: "takeWhile isdigit (x @ rest) = []" "x @ rest = [] \<or> hd (x @ rest) \<noteq> CHR ''.''"
    using x r by (cases x; auto simp: isdigit_def)+
  have parts: "mantissa_parts isdigit (b @ rest) = (ip, fp, x @ rest)"
    using mantissa_parts_literal [OF ip fp fr tail] b by simp
  have "exponent_part ''eE'' (x @ rest) = e"
    using ex rest by (rule exponent_part_literal)
  with parts ne q have "scan_decimal (b @ rest) = Some q"
    by (auto simp: scan_decimal_def)
  with skip sign special hex show ?thesis
    by (simp add: strto_floating_def)
qed

lemma stox_prefix:
  assumes "list_all isspace ws" and "float_literal lit = Some (neg, q)"
      and "ends_floating rest" and "fp_nearest fmt neg q = Some f"
  shows "stox fmt name (ws @ lit @ rest) = Inr f"
  using strto_floating_prefix [OF assms(1-3)] assms(4) by (simp add: stox_def)

lemma stox_literal: "rounds_to fmt s f \<Longrightarrow> stox fmt name s = Inr f"
  using stox_prefix [of "[]" s _ _ "[]" fmt f name]
  by (auto simp: rounds_to_def ends_floating_def split: option.splits)

lemma stox_no_conversion:
  "strto_floating s = No_conversion \<Longrightarrow> stox fmt name s = Inl (invalid_argument name)"
  by (simp add: stox_def)

subsection \<open>The conversion\<close>




lemma DefaultValueType_get_Plain:
  "dv_value d = Plain v \<Longrightarrow> DefaultValueType_get d = Scalar v"
  by (simp add: DefaultValueType_get_def)

lemma DefaultValueType_get_CharArray:
  "dv_value d = CharArray buf \<Longrightarrow>
   DefaultValueType_get d = StringView \<lparr>sv_data = Storage, sv_size = length buf - 1\<rparr>"
  by (simp add: DefaultValueType_get_def)

lemma view_chars_whole:
  "view_chars E d \<lparr>sv_data = Environ env, sv_size = length (mem E env)\<rparr> = mem E env"
  by (simp add: view_chars_def)

lemma convert_textual:
  assumes "textual L (mem E env) v"
  shows "\<exists>r. convert L (denoted_type v) E env = Inr r \<and> value_of E d r = v"
proof (cases v)
  case (Number x)
  show ?thesis
  proof (cases x)
    case (V_int w)
    with Number assms have "stoa 32 ''stoi'' (mem E env) = Inr (sint w)"
      by (simp add: stoa_literal sint_in_range_32)
    with Number V_int show ?thesis
      by (simp add: convert_def stoi_def value_of_def)
  next
    case (V_long w)
    with Number assms have "stoa 64 ''stol'' (mem E env) = Inr (sint w)"
      by (simp add: stoa_literal sint_in_range_64)
    with Number V_long show ?thesis
      by (simp add: convert_def stol_def value_of_def)
  next
    case (V_long_long w)
    with Number assms have "stoa 64 ''stoll'' (mem E env) = Inr (sint w)"
      by (simp add: stoa_literal sint_in_range_64)
    with Number V_long_long show ?thesis
      by (simp add: convert_def stoll_def value_of_def)
  next
    case (V_float f)
    with Number assms have "stof L (mem E env) = Inr f"
      by (simp add: stof_def stox_literal)
    with Number V_float show ?thesis by (simp add: convert_def value_of_def)
  next
    case (V_double f)
    with Number assms have "stod L (mem E env) = Inr f"
      by (simp add: stod_def stox_literal)
    with Number V_double show ?thesis by (simp add: convert_def value_of_def)
  next
    case (V_long_double f)
    with Number assms have "stold L (mem E env) = Inr f"
      by (simp add: stold_def stox_literal)
    with Number V_long_double show ?thesis by (simp add: convert_def value_of_def)
  next
    case (V_char c)
    with Number assms show ?thesis by (simp add: convert_def value_of_def)
  qed
next
  case (Text t)
  with assms have "mem E env = t" by simp
  with Text view_chars_whole [of E d env] show ?thesis
    by (simp add: convert_def value_of_def)
qed

lemma convert_char_text:
  "convert L T_char E env = Inr (Scalar (V_char (case mem E env of [] \<Rightarrow> NUL | c # _ \<Rightarrow> c)))"
  "convert L T_string_view E env
     = Inr (StringView \<lparr>sv_data = Environ env, sv_size = length (mem E env)\<rparr>)"
  by (simp_all add: convert_def)

subsection \<open>The two resolvers, case by case\<close>

lemma initializer_absent:
  "getenv E (name_of (EnvName C)) = None \<Longrightarrow>
   fst (initializer L C E io) = Inr (DefaultValueType_get (DefaultValue C))
   \<and> cerr (snd (initializer L C E io)) = cerr io"
  by (simp add: initializer_def to_cout_def)

lemma initializer_parsed:
  "getenv E (name_of (EnvName C)) = Some env \<Longrightarrow>
   convert L (type_of (DefaultValueType_get (DefaultValue C))) E env = Inr r \<Longrightarrow>
   fst (initializer L C E io) = Inr r \<and> cerr (snd (initializer L C E io)) = cerr io"
  by (simp add: initializer_def to_cout_def Let_def)

lemma initializer_failed:
  "getenv E (name_of (EnvName C)) = Some env \<Longrightarrow>
   convert L (type_of (DefaultValueType_get (DefaultValue C))) E env = Inl e \<Longrightarrow>
   fst (initializer L C E io) = Inr (DefaultValueType_get (DefaultValue C))
   \<and> cerr (snd (initializer L C E io)) = cerr io @ conversion_failed_default L C E env e"
  by (simp add: initializer_def to_cout_def to_cerr_def Let_def)

lemma initializer_returns: "\<exists>v. fst (initializer L C E io) = Inr v"
  by (simp add: initializer_def Let_def split: option.split sum.split)

lemma first_call:
  assumes "static_value st = None"
  shows "fst (EnvHelperWithDefault_get L C E st) = fst (initializer L C E (std_streams st))"
    and "std_streams (snd (EnvHelperWithDefault_get L C E st))
           = snd (initializer L C E (std_streams st))"
  using assms
  by (simp_all add: EnvHelperWithDefault_get_def split: prod.split sum.split)

lemma later_call:
  "static_value st = Some v \<Longrightarrow> EnvHelperWithDefault_get L C E st = (Inr v, st)"
  by (simp add: EnvHelperWithDefault_get_def)

lemma get_pins:
  "\<exists>v. fst (EnvHelperWithDefault_get L C E st) = Inr v
      \<and> static_value (snd (EnvHelperWithDefault_get L C E st)) = Some v"
proof (cases "static_value st")
  case None
  obtain v where "fst (initializer L C E (std_streams st)) = Inr v"
    using initializer_returns by blast
  with None show ?thesis
    by (cases "initializer L C E (std_streams st)") (simp add: EnvHelperWithDefault_get_def)
next
  case (Some v)
  then show ?thesis by (simp add: later_call)
qed

lemma calls_pinned:
  "static_value st = Some v \<Longrightarrow> calls L C Es st = (replicate (length Es) (Inr v), st)"
  by (induction Es) (simp_all add: later_call)

lemma EnvHelper_get_result: "fst (EnvHelper_get L n ty msg E io) = resolve L n ty E"
  by (simp add: EnvHelper_get_def resolve_def Let_def split: option.split sum.split)

lemma EnvHelper_get_absent:
  "getenv E (name_of n) = None \<Longrightarrow>
   EnvHelper_get L n ty msg E io
     = (Inl (runtime_error (not_set_message n)),
        io\<lparr>cerr := cerr io @ not_set_message n @ [CHR 0x0A]\<rparr>)"
  by (simp add: EnvHelper_get_def to_cerr_def)

lemma EnvHelper_get_failed:
  "getenv E (name_of n) = Some env \<Longrightarrow> convert L ty E env = Inl e \<Longrightarrow>
   fst (EnvHelper_get L n ty msg E io) = Inl e
   \<and> cerr (snd (EnvHelper_get L n ty msg E io)) = cerr io @ conversion_failed n E env e"
  by (simp add: EnvHelper_get_def to_cerr_def to_cout_def Let_def)

lemma EnvHelper_get_parsed:
  "getenv E (name_of n) = Some env \<Longrightarrow> convert L ty E env = Inr r \<Longrightarrow>
   fst (EnvHelper_get L n ty msg E io) = Inr r
   \<and> cerr (snd (EnvHelper_get L n ty msg E io)) = cerr io"
  by (simp add: EnvHelper_get_def to_cout_def Let_def)


section \<open>The claims\<close>

text \<open>
  C1. Round trip: for every supported target type and every string that is a valid textual
  representation of a value \<open>v\<close> of that type, resolving a variable whose text is that
  string yields exactly \<open>v\<close>, in the resolver with a default (on its first call) and in
  the resolver without one. For a scalar target the result is the scalar \<open>v\<close> itself; for
  the text target it is a view spanning the characters \<open>v\<close>.
\<close>

theorem round_trip:
  assumes "getenv E (name_of (EnvName C)) = Some env"
      and "static_value st = None"
      and "textual L (mem E env) v"
      and "type_of (DefaultValueType_get (DefaultValue C)) = denoted_type v"
  shows "\<exists>r. fst (EnvHelperWithDefault_get L C E st) = Inr r
           \<and> fst (EnvHelper_get L (EnvName C) (denoted_type v) msg E io) = Inr r
           \<and> value_of E (DefaultValue C) r = v"
proof -
  obtain r where r: "convert L (denoted_type v) E env = Inr r"
    and v: "value_of E (DefaultValue C) r = v"
    using convert_textual [OF assms(3)] by blast
  have "fst (EnvHelperWithDefault_get L C E st) = Inr r"
    using initializer_parsed [of E C env L r] assms r by (simp add: first_call)
  moreover have "fst (EnvHelper_get L (EnvName C) (denoted_type v) msg E io) = Inr r"
    using EnvHelper_get_parsed [OF assms(1) r] by simp
  ultimately show ?thesis using v by blast
qed

theorem round_trip_witness:
  "fst (EnvHelperWithDefault_get no_floats port_or_42 (port_set_to ''123'') start)
     = Inr (Scalar (V_int 123))
   \<and> fst (EnvHelper_get no_floats PORT T_int False (port_set_to ''123'') (std_streams start))
     = Inr (Scalar (V_int 123))
   \<and> fst (EnvHelperWithDefault_get exact_floats port_or_123_4 (port_set_to ''-2.50e1'') start_exact)
     = Inr (Scalar (V_double (Ideal_number (- 25))))
   \<and> fst (EnvHelper_get exact_floats PORT T_double False (port_set_to ''-2.50e1'')
        (std_streams start_exact))
     = Inr (Scalar (V_double (Ideal_number (- 25))))"
proof -
  have h1: "getenv (port_set_to ''123'') (name_of (EnvName port_or_42)) = Some 7"
    by code_simp
  have h2: "static_value start = None"
    by code_simp
  have h3: "textual no_floats (mem (port_set_to ''123'') 7) (Number (V_int 123))"
    by code_simp
  have h4: "type_of (DefaultValueType_get (DefaultValue port_or_42))
      = denoted_type (Number (V_int 123) :: (unit, unit, unit) denoted)"
    by code_simp
  have n: "EnvName port_or_42 = PORT"
    by (simp add: port_or_42_def)
  from round_trip [OF h1 h2 h3 h4, of False "std_streams start"] obtain r where
    "fst (EnvHelperWithDefault_get no_floats port_or_42 (port_set_to ''123'') start) = Inr r"
    "fst (EnvHelper_get no_floats PORT T_int False (port_set_to ''123'') (std_streams start)) = Inr r"
    "value_of (port_set_to ''123'') (DefaultValue port_or_42) r = Number (V_int 123)"
    by (auto simp: n)
  then have int: "fst (EnvHelperWithDefault_get no_floats port_or_42 (port_set_to ''123'') start)
      = Inr (Scalar (V_int 123))
    \<and> fst (EnvHelper_get no_floats PORT T_int False (port_set_to ''123'') (std_streams start))
      = Inr (Scalar (V_int 123))"
    by (cases r) (simp_all add: value_of_def)
  have f1: "getenv (port_set_to ''-2.50e1'') (name_of (EnvName port_or_123_4)) = Some 7"
    by code_simp
  have f2: "static_value start_exact = None"
    by code_simp
  have f3: "textual exact_floats (mem (port_set_to ''-2.50e1'') 7)
      (Number (V_double (Ideal_number (- 25))))"
    by code_simp
  have f4: "type_of (DefaultValueType_get (DefaultValue port_or_123_4))
      = denoted_type (Number (V_double (Ideal_number (- 25))) :: (ideal, ideal, ideal) denoted)"
    by code_simp
  have m: "EnvName port_or_123_4 = PORT"
    by (simp add: port_or_123_4_def)
  from round_trip [OF f1 f2 f3 f4, of False "std_streams start_exact"] obtain r' where
    "fst (EnvHelperWithDefault_get exact_floats port_or_123_4 (port_set_to ''-2.50e1'') start_exact)
      = Inr r'"
    "fst (EnvHelper_get exact_floats PORT T_double False (port_set_to ''-2.50e1'')
        (std_streams start_exact)) = Inr r'"
    "value_of (port_set_to ''-2.50e1'') (DefaultValue port_or_123_4) r'
      = Number (V_double (Ideal_number (- 25)))"
    by (auto simp: m)
  then have "fst (EnvHelperWithDefault_get exact_floats port_or_123_4 (port_set_to ''-2.50e1'')
        start_exact) = Inr (Scalar (V_double (Ideal_number (- 25))))
    \<and> fst (EnvHelper_get exact_floats PORT T_double False (port_set_to ''-2.50e1'')
        (std_streams start_exact)) = Inr (Scalar (V_double (Ideal_number (- 25))))"
    by (cases r') (simp_all add: value_of_def)
  with int show ?thesis by simp
qed

text \<open>
  C2. With a default \<open>d\<close>: when the variable is absent, the first call of get() returns
  exactly the export form of \<open>d\<close>, raises nothing and writes nothing to the error stream.
  For a scalar default the export form is the stored value itself. For a text default
  stored in an array of \<open>N\<close> characters it is a view of that array of length \<open>N - 1\<close>:
  it spans the array without its last character, the terminator.
\<close>

theorem absent_yields_default:
  assumes "getenv E (name_of (EnvName C)) = None"
      and "static_value st = None"
  shows "fst (EnvHelperWithDefault_get L C E st) = Inr (DefaultValueType_get (DefaultValue C))
       \<and> (\<forall>v. dv_value (DefaultValue C) = Plain v \<longrightarrow>
            fst (EnvHelperWithDefault_get L C E st) = Inr (Scalar v))
       \<and> cerr (std_streams (snd (EnvHelperWithDefault_get L C E st))) = cerr (std_streams st)
       \<and> (\<forall>buf. dv_value (DefaultValue C) = CharArray buf \<and> buf \<noteq> [] \<longrightarrow>
            fst (EnvHelperWithDefault_get L C E st)
              = Inr (StringView \<lparr>sv_data = Storage, sv_size = length buf - 1\<rparr>)
            \<and> view_chars E (DefaultValue C) \<lparr>sv_data = Storage, sv_size = length buf - 1\<rparr>
              = butlast buf
            \<and> Suc (length (butlast buf)) = length buf)"
proof -
  have r: "fst (EnvHelperWithDefault_get L C E st) = Inr (DefaultValueType_get (DefaultValue C))"
    using initializer_absent [OF assms(1)] assms(2) by (simp add: first_call)
  have "cerr (std_streams (snd (EnvHelperWithDefault_get L C E st))) = cerr (std_streams st)"
    using initializer_absent [OF assms(1)] assms(2) by (simp add: first_call)
  moreover have "fst (EnvHelperWithDefault_get L C E st) = Inr (Scalar v)"
    if "dv_value (DefaultValue C) = Plain v" for v
    using r DefaultValueType_get_Plain [OF that] by simp
  moreover have "fst (EnvHelperWithDefault_get L C E st)
      = Inr (StringView \<lparr>sv_data = Storage, sv_size = length buf - 1\<rparr>)
    \<and> view_chars E (DefaultValue C) \<lparr>sv_data = Storage, sv_size = length buf - 1\<rparr> = butlast buf
    \<and> Suc (length (butlast buf)) = length buf"
    if "dv_value (DefaultValue C) = CharArray buf \<and> buf \<noteq> []" for buf
    using that r DefaultValueType_get_CharArray [of "DefaultValue C" buf]
    by (simp add: view_chars_def butlast_conv_take)
  ultimately show ?thesis using r by blast
qed

theorem absent_yields_default_witness:
  "fst (EnvHelperWithDefault_get no_floats port_or_tmp nothing_set start)
     = Inr (StringView \<lparr>sv_data = Storage, sv_size = 4\<rparr>)
   \<and> cerr (std_streams (snd (EnvHelperWithDefault_get no_floats port_or_tmp nothing_set start))) = []
   \<and> view_chars nothing_set (DefaultValue port_or_tmp) \<lparr>sv_data = Storage, sv_size = 4\<rparr>
     = ''/tmp''
   \<and> fst (EnvHelperWithDefault_get no_floats port_or_42 nothing_set start)
     = Inr (Scalar (V_int 42))
   \<and> fst (EnvHelperWithDefault_get no_floats port_or_7 nothing_set start)
     = Inr (Scalar (V_long 7))
   \<and> fst (EnvHelperWithDefault_get no_floats port_or_a nothing_set start)
     = Inr (Scalar (V_char CHR ''a''))
   \<and> fst (EnvHelperWithDefault_get exact_floats port_or_123_4 nothing_set start_exact)
     = Inr (Scalar (V_double (Ideal_number (1234 / 10))))"
proof -
  have h1: "getenv nothing_set (name_of (EnvName port_or_tmp)) = None"
    by code_simp
  have h2: "static_value start = None"
    by code_simp
  have h3: "dv_value (DefaultValue port_or_tmp) = CharArray (''/tmp'' @ [NUL])
      \<and> ''/tmp'' @ [NUL] \<noteq> []"
    by (simp add: port_or_tmp_def)
  have h4: "cerr (std_streams start) = []"
    by (simp add: start_def)
  have h5: "length (''/tmp'' @ [NUL]) - 1 = 4" "butlast (''/tmp'' @ [NUL]) = ''/tmp''"
    by simp_all
  from absent_yields_default [OF h1 h2, of no_floats] h3
  have "fst (EnvHelperWithDefault_get no_floats port_or_tmp nothing_set start)
      = Inr (StringView \<lparr>sv_data = Storage, sv_size = length (''/tmp'' @ [NUL]) - 1\<rparr>)
    \<and> cerr (std_streams (snd (EnvHelperWithDefault_get no_floats port_or_tmp nothing_set start)))
      = cerr (std_streams start)
    \<and> view_chars nothing_set (DefaultValue port_or_tmp)
        \<lparr>sv_data = Storage, sv_size = length (''/tmp'' @ [NUL]) - 1\<rparr>
      = butlast (''/tmp'' @ [NUL])"
    by metis
  then have view: "fst (EnvHelperWithDefault_get no_floats port_or_tmp nothing_set start)
      = Inr (StringView \<lparr>sv_data = Storage, sv_size = 4\<rparr>)
    \<and> cerr (std_streams (snd (EnvHelperWithDefault_get no_floats port_or_tmp nothing_set start))) = []
    \<and> view_chars nothing_set (DefaultValue port_or_tmp) \<lparr>sv_data = Storage, sv_size = 4\<rparr>
      = ''/tmp''"
    unfolding h5 h4 .
  have a1: "getenv nothing_set (name_of (EnvName port_or_42)) = None"
    "getenv nothing_set (name_of (EnvName port_or_7)) = None"
    "getenv nothing_set (name_of (EnvName port_or_a)) = None"
    "getenv nothing_set (name_of (EnvName port_or_123_4)) = None"
    by code_simp+
  have a2: "static_value start_exact = None"
    by code_simp
  have d: "dv_value (DefaultValue port_or_42) = Plain (V_int 42)"
    "dv_value (DefaultValue port_or_7) = Plain (V_long 7)"
    "dv_value (DefaultValue port_or_a) = Plain (V_char CHR ''a'')"
    "dv_value (DefaultValue port_or_123_4) = Plain (V_double (Ideal_number (1234 / 10)))"
    by (simp_all add: port_or_42_def port_or_7_def port_or_a_def port_or_123_4_def
        DefaultValueType_of_val_def)
  from absent_yields_default [OF a1(1) h2, of no_floats] d(1)
  have "fst (EnvHelperWithDefault_get no_floats port_or_42 nothing_set start)
      = Inr (Scalar (V_int 42))"
    by blast
  moreover from absent_yields_default [OF a1(2) h2, of no_floats] d(2)
  have "fst (EnvHelperWithDefault_get no_floats port_or_7 nothing_set start)
      = Inr (Scalar (V_long 7))"
    by blast
  moreover from absent_yields_default [OF a1(3) h2, of no_floats] d(3)
  have "fst (EnvHelperWithDefault_get no_floats port_or_a nothing_set start)
      = Inr (Scalar (V_char CHR ''a''))"
    by blast
  moreover from absent_yields_default [OF a1(4) a2, of exact_floats] d(4)
  have "fst (EnvHelperWithDefault_get exact_floats port_or_123_4 nothing_set start_exact)
      = Inr (Scalar (V_double (Ideal_number (1234 / 10))))"
    by blast
  ultimately show ?thesis using view by simp
qed

text \<open>
  C3. With a default \<open>d\<close>: when the variable is present and its text does not convert to
  the target type (the conversion raises \<open>e\<close>), the first call of get() returns exactly
  the export form of \<open>d\<close>, for a scalar default the stored value itself; the exception
  stops there; and the error stream receives one line with the variable's name, the raw
  text and the default, and one with \<open>e.what()\<close>.
\<close>

theorem unparsable_yields_default:
  assumes "getenv E (name_of (EnvName C)) = Some env"
      and "static_value st = None"
      and "convert L (type_of (DefaultValueType_get (DefaultValue C))) E env = Inl e"
  shows "fst (EnvHelperWithDefault_get L C E st) = Inr (DefaultValueType_get (DefaultValue C))
       \<and> cerr (std_streams (snd (EnvHelperWithDefault_get L C E st)))
         = cerr (std_streams st)
           @ ''[EnvHelper] '' @ name_of (EnvName C) @ '' conversion failed: (env=''
           @ [CHR 0x27] @ mem E env @ [CHR 0x27] @ ''), using default value: ''
           @ put_export L E (DefaultValue C) (DefaultValueType_get (DefaultValue C))
           @ [CHR 0x0A] @ what e @ [CHR 0x0A]
       \<and> (\<forall>v. dv_value (DefaultValue C) = Plain v \<longrightarrow>
            fst (EnvHelperWithDefault_get L C E st) = Inr (Scalar v)
            \<and> cerr (std_streams (snd (EnvHelperWithDefault_get L C E st)))
              = cerr (std_streams st)
                @ ''[EnvHelper] '' @ name_of (EnvName C) @ '' conversion failed: (env=''
                @ [CHR 0x27] @ mem E env @ [CHR 0x27] @ ''), using default value: ''
                @ put_scalar L v @ [CHR 0x0A] @ what e @ [CHR 0x0A])"
proof -
  have general: "fst (EnvHelperWithDefault_get L C E st)
        = Inr (DefaultValueType_get (DefaultValue C))
      \<and> cerr (std_streams (snd (EnvHelperWithDefault_get L C E st)))
        = cerr (std_streams st)
          @ ''[EnvHelper] '' @ name_of (EnvName C) @ '' conversion failed: (env=''
          @ [CHR 0x27] @ mem E env @ [CHR 0x27] @ ''), using default value: ''
          @ put_export L E (DefaultValue C) (DefaultValueType_get (DefaultValue C))
          @ [CHR 0x0A] @ what e @ [CHR 0x0A]"
    using initializer_failed [OF assms(1) assms(3)] assms(2)
    by (simp add: first_call conversion_failed_default_def endl_def)
  moreover have "fst (EnvHelperWithDefault_get L C E st) = Inr (Scalar v)
      \<and> cerr (std_streams (snd (EnvHelperWithDefault_get L C E st)))
        = cerr (std_streams st)
          @ ''[EnvHelper] '' @ name_of (EnvName C) @ '' conversion failed: (env=''
          @ [CHR 0x27] @ mem E env @ [CHR 0x27] @ ''), using default value: ''
          @ put_scalar L v @ [CHR 0x0A] @ what e @ [CHR 0x0A]"
    if "dv_value (DefaultValue C) = Plain v" for v
    using general DefaultValueType_get_Plain [OF that] by (simp add: put_export_def)
  ultimately show ?thesis by blast
qed

theorem unparsable_yields_default_witness:
  "fst (EnvHelperWithDefault_get no_floats port_or_42 (port_set_to ''abc'') start)
     = Inr (Scalar (V_int 42))
   \<and> cerr (std_streams (snd (EnvHelperWithDefault_get no_floats port_or_42 (port_set_to ''abc'') start)))
     = ''[EnvHelper] PORT conversion failed: (env='' @ [CHR 0x27] @ ''abc'' @ [CHR 0x27]
       @ ''), using default value: 42'' @ [CHR 0x0A] @ ''stoi'' @ [CHR 0x0A]
   \<and> fst (EnvHelperWithDefault_get no_floats port_or_42 (port_set_to []) start)
     = Inr (Scalar (V_int 42))
   \<and> fst (EnvHelperWithDefault_get no_floats port_or_42 (port_set_to ''2147483648'') start)
     = Inr (Scalar (V_int 42))
   \<and> fst (EnvHelperWithDefault_get no_floats port_or_7 (port_set_to ''abc'') start)
     = Inr (Scalar (V_long 7))
   \<and> cerr (std_streams (snd (EnvHelperWithDefault_get no_floats port_or_7 (port_set_to ''abc'') start)))
     = ''[EnvHelper] PORT conversion failed: (env='' @ [CHR 0x27] @ ''abc'' @ [CHR 0x27]
       @ ''), using default value: 7'' @ [CHR 0x0A] @ ''stol'' @ [CHR 0x0A]
   \<and> fst (EnvHelperWithDefault_get exact_floats port_or_123_4 (port_set_to ''abc'') start_exact)
     = Inr (Scalar (V_double (Ideal_number (1234 / 10))))"
proof -
  have h2: "static_value start = None" "static_value start_exact = None"
    by code_simp+
  have d: "dv_value (DefaultValue port_or_42) = Plain (V_int 42)"
    "dv_value (DefaultValue port_or_7) = Plain (V_long 7)"
    "dv_value (DefaultValue port_or_123_4) = Plain (V_double (Ideal_number (1234 / 10)))"
    by (simp_all add: port_or_42_def port_or_7_def port_or_123_4_def DefaultValueType_of_val_def)
  have e2: "name_of (EnvName port_or_42) = ''PORT''" "name_of (EnvName port_or_7) = ''PORT''"
    by code_simp+
  have e3: "mem (port_set_to ''abc'') 7 = ''abc''"
    by code_simp
  have e4: "put_scalar no_floats (V_int 42) = ''42''" "put_scalar no_floats (V_long 7) = ''7''"
    by code_simp+
  have e5: "cerr (std_streams start) = []"
    by code_simp
  have malformed: "getenv (port_set_to ''abc'') (name_of (EnvName port_or_42)) = Some 7"
    "convert no_floats (type_of (DefaultValueType_get (DefaultValue port_or_42)))
      (port_set_to ''abc'') 7 = Inl (invalid_argument ''stoi'')"
    by code_simp+
  have empty: "getenv (port_set_to []) (name_of (EnvName port_or_42)) = Some 7"
    "convert no_floats (type_of (DefaultValueType_get (DefaultValue port_or_42)))
      (port_set_to []) 7 = Inl (invalid_argument ''stoi'')"
    by code_simp+
  have too_large: "getenv (port_set_to ''2147483648'') (name_of (EnvName port_or_42)) = Some 7"
    "convert no_floats (type_of (DefaultValueType_get (DefaultValue port_or_42)))
      (port_set_to ''2147483648'') 7 = Inl (out_of_range ''stoi'')"
    by code_simp+
  have other: "getenv (port_set_to ''abc'') (name_of (EnvName port_or_7)) = Some 7"
    "convert no_floats (type_of (DefaultValueType_get (DefaultValue port_or_7)))
      (port_set_to ''abc'') 7 = Inl (invalid_argument ''stol'')"
    by code_simp+
  have floating: "getenv (port_set_to ''abc'') (name_of (EnvName port_or_123_4)) = Some 7"
    "convert exact_floats (type_of (DefaultValueType_get (DefaultValue port_or_123_4)))
      (port_set_to ''abc'') 7 = Inl (invalid_argument ''stod'')"
    by code_simp+
  from unparsable_yields_default [OF malformed(1) h2(1) malformed(2)] d(1)
  have "fst (EnvHelperWithDefault_get no_floats port_or_42 (port_set_to ''abc'') start)
      = Inr (Scalar (V_int 42))
    \<and> cerr (std_streams (snd (EnvHelperWithDefault_get no_floats port_or_42
        (port_set_to ''abc'') start)))
      = cerr (std_streams start)
        @ ''[EnvHelper] '' @ name_of (EnvName port_or_42) @ '' conversion failed: (env=''
        @ [CHR 0x27] @ mem (port_set_to ''abc'') 7 @ [CHR 0x27] @ ''), using default value: ''
        @ put_scalar no_floats (V_int 42) @ [CHR 0x0A] @ what (invalid_argument ''stoi'')
        @ [CHR 0x0A]"
    by blast
  then have "fst (EnvHelperWithDefault_get no_floats port_or_42 (port_set_to ''abc'') start)
      = Inr (Scalar (V_int 42))
    \<and> cerr (std_streams (snd (EnvHelperWithDefault_get no_floats port_or_42
        (port_set_to ''abc'') start)))
      = ''[EnvHelper] PORT conversion failed: (env='' @ [CHR 0x27] @ ''abc'' @ [CHR 0x27]
        @ ''), using default value: 42'' @ [CHR 0x0A] @ ''stoi'' @ [CHR 0x0A]"
    by (simp add: e2 e3 e4 e5)
  moreover
  from unparsable_yields_default [OF empty(1) h2(1) empty(2)] d(1)
  have "fst (EnvHelperWithDefault_get no_floats port_or_42 (port_set_to []) start)
      = Inr (Scalar (V_int 42))"
    by blast
  moreover
  from unparsable_yields_default [OF too_large(1) h2(1) too_large(2)] d(1)
  have "fst (EnvHelperWithDefault_get no_floats port_or_42 (port_set_to ''2147483648'') start)
      = Inr (Scalar (V_int 42))"
    by blast
  moreover
  from unparsable_yields_default [OF other(1) h2(1) other(2)] d(2)
  have "fst (EnvHelperWithDefault_get no_floats port_or_7 (port_set_to ''abc'') start)
      = Inr (Scalar (V_long 7))
    \<and> cerr (std_streams (snd (EnvHelperWithDefault_get no_floats port_or_7
        (port_set_to ''abc'') start)))
      = cerr (std_streams start)
        @ ''[EnvHelper] '' @ name_of (EnvName port_or_7) @ '' conversion failed: (env=''
        @ [CHR 0x27] @ mem (port_set_to ''abc'') 7 @ [CHR 0x27] @ ''), using default value: ''
        @ put_scalar no_floats (V_long 7) @ [CHR 0x0A] @ what (invalid_argument ''stol'')
        @ [CHR 0x0A]"
    by blast
  then have "fst (EnvHelperWithDefault_get no_floats port_or_7 (port_set_to ''abc'') start)
      = Inr (Scalar (V_long 7))
    \<and> cerr (std_streams (snd (EnvHelperWithDefault_get no_floats port_or_7
        (port_set_to ''abc'') start)))
      = ''[EnvHelper] PORT conversion failed: (env='' @ [CHR 0x27] @ ''abc'' @ [CHR 0x27]
        @ ''), using default value: 7'' @ [CHR 0x0A] @ ''stol'' @ [CHR 0x0A]"
    by (simp add: e2 e3 e4 e5)
  moreover
  from unparsable_yields_default [OF floating(1) h2(2) floating(2)] d(3)
  have "fst (EnvHelperWithDefault_get exact_floats port_or_123_4 (port_set_to ''abc'') start_exact)
      = Inr (Scalar (V_double (Ideal_number (1234 / 10))))"
    by blast
  ultimately show ?thesis by simp
qed

text \<open>
  The three ways an integer conversion fails: nothing to convert (malformed or empty text)
  and a value outside the target type.
\<close>

lemma integer_conversion_failures:
  "stoi ''abc'' = Inl (invalid_argument ''stoi'')"
  "stoi [] = Inl (invalid_argument ''stoi'')"
  "stoi ''2147483648'' = Inl (out_of_range ''stoi'')"
  "stoll ''-9223372036854775809'' = Inl (out_of_range ''stoll'')"
  by code_simp+

text \<open>
  C4. Without a default: when the variable is absent, get() fails with a
  \<^verbatim>\<open>std::runtime_error\<close> (the spec's NotSet) and writes the same message to the error
  stream; when the variable is present and the conversion raises \<open>e\<close>, get() writes a
  diagnostic to the error stream and fails with \<open>e\<close> itself (\<^verbatim>\<open>throw;\<close>). No failure
  is swallowed: get() returns a value only when the variable is present and the conversion
  returned that value.
\<close>

theorem required_fails_loudly:
  "(getenv E (name_of n) = None \<longrightarrow>
      EnvHelper_get L n ty msg E io
        = (Inl (runtime_error (name_of n @ '' is not set and no default value is provided.'')),
           io\<lparr>cerr := cerr io @ name_of n
             @ '' is not set and no default value is provided.'' @ [CHR 0x0A]\<rparr>))
   \<and> (\<forall>env e. getenv E (name_of n) = Some env \<and> convert L ty E env = Inl e \<longrightarrow>
        fst (EnvHelper_get L n ty msg E io) = Inl e
        \<and> cerr (snd (EnvHelper_get L n ty msg E io))
          = cerr io @ ''[EnvHelperNoDefault] '' @ name_of n @ '' conversion failed: (env=''
            @ [CHR 0x27] @ mem E env @ [CHR 0x27] @ '')'' @ [CHR 0x0A] @ what e @ [CHR 0x0A])
   \<and> (\<forall>v. fst (EnvHelper_get L n ty msg E io) = Inr v \<longrightarrow>
        (\<exists>env. getenv E (name_of n) = Some env \<and> convert L ty E env = Inr v))"
proof (intro conjI allI impI)
  assume "getenv E (name_of n) = None"
  then show "EnvHelper_get L n ty msg E io
      = (Inl (runtime_error (name_of n @ '' is not set and no default value is provided.'')),
         io\<lparr>cerr := cerr io @ name_of n
           @ '' is not set and no default value is provided.'' @ [CHR 0x0A]\<rparr>)"
    using EnvHelper_get_absent [of E n L ty msg io] by (simp add: not_set_message_def)
next
  fix env e
  assume a: "getenv E (name_of n) = Some env \<and> convert L ty E env = Inl e"
  then show "fst (EnvHelper_get L n ty msg E io) = Inl e"
    using EnvHelper_get_failed [of E n env L ty e] by simp
  from a show "cerr (snd (EnvHelper_get L n ty msg E io))
      = cerr io @ ''[EnvHelperNoDefault] '' @ name_of n @ '' conversion failed: (env=''
        @ [CHR 0x27] @ mem E env @ [CHR 0x27] @ '')'' @ [CHR 0x0A] @ what e @ [CHR 0x0A]"
    using EnvHelper_get_failed [of E n env L ty e msg io]
    by (simp add: conversion_failed_def endl_def)
next
  fix v
  assume "fst (EnvHelper_get L n ty msg E io) = Inr v"
  then show "\<exists>env. getenv E (name_of n) = Some env \<and> convert L ty E env = Inr v"
    by (simp add: EnvHelper_get_result resolve_def split: option.splits)
qed

theorem required_fails_loudly_witness:
  "EnvHelper_get no_floats PORT T_int False nothing_set \<lparr>cout = [], cerr = []\<rparr>
     = (Inl (runtime_error ''PORT is not set and no default value is provided.''),
        \<lparr>cout = [], cerr = ''PORT is not set and no default value is provided.'' @ [CHR 0x0A]\<rparr>)
   \<and> fst (EnvHelper_get no_floats PORT T_int False (port_set_to ''abc'') \<lparr>cout = [], cerr = []\<rparr>)
     = Inl (invalid_argument ''stoi'')
   \<and> cerr (snd (EnvHelper_get no_floats PORT T_int False (port_set_to ''abc'')
        \<lparr>cout = [], cerr = []\<rparr>))
     = ''[EnvHelperNoDefault] PORT conversion failed: (env='' @ [CHR 0x27] @ ''abc''
       @ [CHR 0x27] @ '')'' @ [CHR 0x0A] @ ''stoi'' @ [CHR 0x0A]"
proof -
  have h1: "getenv nothing_set (name_of PORT) = None"
    by code_simp
  have h2: "getenv (port_set_to ''abc'') (name_of PORT) = Some 7
      \<and> convert no_floats T_int (port_set_to ''abc'') 7 = Inl (invalid_argument ''stoi'')"
    by code_simp
  have e1: "name_of PORT = ''PORT''"
    by code_simp
  have e2: "mem (port_set_to ''abc'') 7 = ''abc''"
    by code_simp
  from required_fails_loudly [of nothing_set PORT no_floats T_int False "\<lparr>cout = [], cerr = []\<rparr>"]
    h1 e1
  have "EnvHelper_get no_floats PORT T_int False nothing_set \<lparr>cout = [], cerr = []\<rparr>
     = (Inl (runtime_error ''PORT is not set and no default value is provided.''),
        \<lparr>cout = [], cerr = ''PORT is not set and no default value is provided.'' @ [CHR 0x0A]\<rparr>)"
    by simp
  moreover
  from required_fails_loudly [of "port_set_to ''abc''" PORT no_floats T_int False
      "\<lparr>cout = [], cerr = []\<rparr>"] h2
  have "fst (EnvHelper_get no_floats PORT T_int False (port_set_to ''abc'') \<lparr>cout = [], cerr = []\<rparr>)
      = Inl (invalid_argument ''stoi'')
    \<and> cerr (snd (EnvHelper_get no_floats PORT T_int False (port_set_to ''abc'')
        \<lparr>cout = [], cerr = []\<rparr>))
      = ''[EnvHelperNoDefault] PORT conversion failed: (env='' @ [CHR 0x27] @ ''abc''
        @ [CHR 0x27] @ '')'' @ [CHR 0x0A] @ ''stoi'' @ [CHR 0x0A]"
    by (simp add: e1 e2)
  ultimately show ?thesis by simp
qed

text \<open>
  C5. The resolver with a default never fails: whatever the environment (variable absent,
  present and convertible, present and not convertible), whatever the target type, and
  whether or not the static is initialised already, get() returns a value, and that value
  is what the static holds afterwards. On the first call the value is the default when the
  variable is absent, the converted value when the conversion returns, and the default
  when the conversion raises.
\<close>

theorem with_default_never_fails:
  "\<exists>v. fst (EnvHelperWithDefault_get L C E st) = Inr v
      \<and> static_value (snd (EnvHelperWithDefault_get L C E st)) = Some v
      \<and> (static_value st = None \<longrightarrow>
           v = (case getenv E (name_of (EnvName C)) of
                  None \<Rightarrow> DefaultValueType_get (DefaultValue C)
                | Some env \<Rightarrow>
                    (case convert L (type_of (DefaultValueType_get (DefaultValue C))) E env of
                       Inr r \<Rightarrow> r
                     | Inl e \<Rightarrow> DefaultValueType_get (DefaultValue C))))"
proof -
  obtain v where v: "fst (EnvHelperWithDefault_get L C E st) = Inr v"
    and pinned: "static_value (snd (EnvHelperWithDefault_get L C E st)) = Some v"
    using get_pins by blast
  have first: "v = (case getenv E (name_of (EnvName C)) of
               None \<Rightarrow> DefaultValueType_get (DefaultValue C)
             | Some env \<Rightarrow>
                 (case convert L (type_of (DefaultValueType_get (DefaultValue C))) E env of
                    Inr r \<Rightarrow> r
                  | Inl e \<Rightarrow> DefaultValueType_get (DefaultValue C)))"
    if fresh: "static_value st = None"
  proof (cases "getenv E (name_of (EnvName C))")
    case None
    from initializer_absent [OF None, of L "std_streams st"] fresh v None show ?thesis
      by (simp add: first_call)
  next
    case (Some env)
    show ?thesis
    proof (cases "convert L (type_of (DefaultValueType_get (DefaultValue C))) E env")
      case (Inl e)
      from initializer_failed [OF Some Inl, of "std_streams st"] fresh v Some Inl show ?thesis
        by (simp add: first_call)
    next
      case (Inr r)
      from initializer_parsed [OF Some Inr, of "std_streams st"] fresh v Some Inr show ?thesis
        by (simp add: first_call)
    qed
  qed
  show ?thesis
  proof (intro exI conjI impI)
    show "fst (EnvHelperWithDefault_get L C E st) = Inr v" by (rule v)
    show "static_value (snd (EnvHelperWithDefault_get L C E st)) = Some v" by (rule pinned)
  qed (rule first)
qed

theorem with_default_never_fails_witness:
  "fst (EnvHelperWithDefault_get no_floats port_or_42 nothing_set start) = Inr (Scalar (V_int 42))
   \<and> fst (EnvHelperWithDefault_get no_floats port_or_42 (port_set_to ''8080'') start)
     = Inr (Scalar (V_int 8080))
   \<and> fst (EnvHelperWithDefault_get no_floats port_or_42 (port_set_to ''abc'') start)
     = Inr (Scalar (V_int 42))"
proof -
  have fresh: "static_value start = None"
    by code_simp
  have absent: "(case getenv nothing_set (name_of (EnvName port_or_42)) of
        None \<Rightarrow> DefaultValueType_get (DefaultValue port_or_42)
      | Some env \<Rightarrow>
          (case convert no_floats (type_of (DefaultValueType_get (DefaultValue port_or_42)))
                  nothing_set env of
             Inr r \<Rightarrow> r
           | Inl e \<Rightarrow> DefaultValueType_get (DefaultValue port_or_42)))
      = Scalar (V_int 42)"
    by code_simp
  have parsed: "(case getenv (port_set_to ''8080'') (name_of (EnvName port_or_42)) of
        None \<Rightarrow> DefaultValueType_get (DefaultValue port_or_42)
      | Some env \<Rightarrow>
          (case convert no_floats (type_of (DefaultValueType_get (DefaultValue port_or_42)))
                  (port_set_to ''8080'') env of
             Inr r \<Rightarrow> r
           | Inl e \<Rightarrow> DefaultValueType_get (DefaultValue port_or_42)))
      = Scalar (V_int 8080)"
    by code_simp
  have failed: "(case getenv (port_set_to ''abc'') (name_of (EnvName port_or_42)) of
        None \<Rightarrow> DefaultValueType_get (DefaultValue port_or_42)
      | Some env \<Rightarrow>
          (case convert no_floats (type_of (DefaultValueType_get (DefaultValue port_or_42)))
                  (port_set_to ''abc'') env of
             Inr r \<Rightarrow> r
           | Inl e \<Rightarrow> DefaultValueType_get (DefaultValue port_or_42)))
      = Scalar (V_int 42)"
    by code_simp
  from with_default_never_fails [of no_floats port_or_42 nothing_set start] fresh absent
  have "fst (EnvHelperWithDefault_get no_floats port_or_42 nothing_set start)
      = Inr (Scalar (V_int 42))"
    by auto
  moreover
  from with_default_never_fails [of no_floats port_or_42 "port_set_to ''8080''" start] fresh parsed
  have "fst (EnvHelperWithDefault_get no_floats port_or_42 (port_set_to ''8080'') start)
      = Inr (Scalar (V_int 8080))"
    by auto
  moreover
  from with_default_never_fails [of no_floats port_or_42 "port_set_to ''abc''" start] fresh failed
  have "fst (EnvHelperWithDefault_get no_floats port_or_42 (port_set_to ''abc'') start)
      = Inr (Scalar (V_int 42))"
    by auto
  ultimately show ?thesis by simp
qed

text \<open>
  C6. The resolver with a default is memoised. In any sequence of calls, each made in an
  environment of its own (so the variable may be changed, set or unset between calls),
  every call returns the result of the first, and the state after the whole sequence is
  the state the first call left: later calls write nothing and do not depend on the
  environment, for the lookup and the conversion ran in the first call only. For the text
  target the pinned result is the view (pointer and length), not a copy of characters.
\<close>

theorem memoized:
  "calls L C (E # Es) st
     = (replicate (Suc (length Es)) (fst (EnvHelperWithDefault_get L C E st)),
        snd (EnvHelperWithDefault_get L C E st))"
proof -
  obtain v where v: "fst (EnvHelperWithDefault_get L C E st) = Inr v"
    and pinned: "static_value (snd (EnvHelperWithDefault_get L C E st)) = Some v"
    using get_pins by blast
  from calls_pinned [OF pinned] v show ?thesis
    by (cases "EnvHelperWithDefault_get L C E st") simp
qed

theorem memoized_witness:
  "calls no_floats port_or_42 [port_set_to ''123'', port_set_to ''456'', nothing_set] start
     = ([Inr (Scalar (V_int 123)), Inr (Scalar (V_int 123)), Inr (Scalar (V_int 123))],
        \<lparr>static_value = Some (Scalar (V_int 123)), std_streams = \<lparr>cout = [], cerr = []\<rparr>\<rparr>)"
proof -
  have first: "EnvHelperWithDefault_get no_floats port_or_42 (port_set_to ''123'') start
      = (Inr (Scalar (V_int 123)),
         \<lparr>static_value = Some (Scalar (V_int 123)), std_streams = \<lparr>cout = [], cerr = []\<rparr>\<rparr>)"
    by code_simp
  from memoized [of no_floats port_or_42 "port_set_to ''123''" "[port_set_to ''456'', nothing_set]"
      start]
  show ?thesis
    by (simp add: first)
qed

text \<open>
  C7. The resolver without a default keeps nothing between calls. In any sequence of calls,
  each made in an environment of its own, the result of every call is the lookup and the
  conversion in the environment of that call: it does not depend on the calls made before
  or on the state of the streams. A call made after the variable has changed returns what
  the new text converts to.
\<close>

theorem no_caching:
  "fst (calls_required L n ty msg Es io) = map (resolve L n ty) Es"
proof (induction Es arbitrary: io)
  case Nil
  show ?case by simp
next
  case (Cons E Es)
  obtain r io' where call: "EnvHelper_get L n ty msg E io = (r, io')"
    by (cases "EnvHelper_get L n ty msg E io")
  then have "r = resolve L n ty E"
    using EnvHelper_get_result [of L n ty msg E io] by simp
  with call Cons.IH [of io'] show ?case
    by (cases "calls_required L n ty msg Es io'") simp
qed

theorem no_caching_witness:
  "fst (calls_required no_floats PORT T_int False
          [port_set_to ''1'', port_set_to ''2'', nothing_set, port_set_to ''1'']
          \<lparr>cout = [], cerr = []\<rparr>)
     = [Inr (Scalar (V_int 1)), Inr (Scalar (V_int 2)),
        Inl (runtime_error ''PORT is not set and no default value is provided.''),
        Inr (Scalar (V_int 1))]"
proof -
  have r1: "resolve no_floats PORT T_int (port_set_to ''1'') = Inr (Scalar (V_int 1))"
    by code_simp
  have r2: "resolve no_floats PORT T_int (port_set_to ''2'') = Inr (Scalar (V_int 2))"
    by code_simp
  have r3: "resolve no_floats PORT T_int nothing_set
      = Inl (runtime_error ''PORT is not set and no default value is provided.'')"
    by code_simp
  from no_caching [of no_floats PORT T_int False
      "[port_set_to ''1'', port_set_to ''2'', nothing_set, port_set_to ''1'']"
      "\<lparr>cout = [], cerr = []\<rparr>"]
  show ?thesis
    by (simp add: r1 r2 r3)
qed



text \<open>
  C9. The text target. When the variable is present, both resolvers return the view that
  starts at the very pointer \<^verbatim>\<open>std::getenv\<close> returned (nothing is copied) and whose
  length is the length of the string there, terminator excluded; the characters it spans
  are exactly the raw text; this holds for every raw text (nothing is validated), and the
  error stream is left alone.
\<close>

theorem text_target_view:
  assumes "getenv E (name_of (EnvName C)) = Some env"
      and "static_value st = None"
      and "dv_value (DefaultValue C) = CharArray buf"
  shows "fst (EnvHelperWithDefault_get L C E st)
           = Inr (StringView \<lparr>sv_data = Environ env, sv_size = length (mem E env)\<rparr>)
       \<and> fst (EnvHelper_get L (EnvName C) T_string_view msg E io)
           = Inr (StringView \<lparr>sv_data = Environ env, sv_size = length (mem E env)\<rparr>)
       \<and> view_chars E (DefaultValue C) \<lparr>sv_data = Environ env, sv_size = length (mem E env)\<rparr>
           = mem E env
       \<and> cerr (std_streams (snd (EnvHelperWithDefault_get L C E st))) = cerr (std_streams st)
       \<and> cerr (snd (EnvHelper_get L (EnvName C) T_string_view msg E io)) = cerr io"
proof -
  have ty: "type_of (DefaultValueType_get (DefaultValue C)) = T_string_view"
    using assms(3) by (simp add: DefaultValueType_get_def)
  have c: "convert L T_string_view E env
      = Inr (StringView \<lparr>sv_data = Environ env, sv_size = length (mem E env)\<rparr>)"
    by (rule convert_char_text)
  from initializer_parsed [of E C env L] assms(1,2) ty c
  have "fst (EnvHelperWithDefault_get L C E st)
      = Inr (StringView \<lparr>sv_data = Environ env, sv_size = length (mem E env)\<rparr>)
    \<and> cerr (std_streams (snd (EnvHelperWithDefault_get L C E st))) = cerr (std_streams st)"
    by (simp add: first_call)
  with EnvHelper_get_parsed [OF assms(1) c, of msg io] view_chars_whole [of E "DefaultValue C" env]
  show ?thesis by simp
qed

theorem text_target_view_witness:
  "fst (EnvHelperWithDefault_get no_floats port_or_tmp (port_set_to ''not a number'') start)
     = Inr (StringView \<lparr>sv_data = Environ 7, sv_size = 12\<rparr>)
   \<and> fst (EnvHelper_get no_floats PORT T_string_view False (port_set_to ''not a number'')
        \<lparr>cout = [], cerr = []\<rparr>)
     = Inr (StringView \<lparr>sv_data = Environ 7, sv_size = 12\<rparr>)
   \<and> view_chars (port_set_to ''not a number'') (DefaultValue port_or_tmp)
        \<lparr>sv_data = Environ 7, sv_size = 12\<rparr> = ''not a number''"
proof -
  have h1: "getenv (port_set_to ''not a number'') (name_of (EnvName port_or_tmp)) = Some 7"
    by code_simp
  have h2: "static_value start = None"
    by code_simp
  have h3: "dv_value (DefaultValue port_or_tmp) = CharArray (''/tmp'' @ [NUL])"
    by (simp add: port_or_tmp_def)
  have e1: "EnvName port_or_tmp = PORT"
    by (simp add: port_or_tmp_def)
  have e2: "mem (port_set_to ''not a number'') 7 = ''not a number''"
    by (simp add: port_set_to_def)
  have e3: "length ''not a number'' = 12"
    by simp
  from text_target_view [OF h1 h2 h3, of no_floats False "\<lparr>cout = [], cerr = []\<rparr>"]
  show ?thesis
    unfolding e1 e2 e3 by simp
qed

text \<open>
  C10. For the character and the text target the conversion of a present variable always
  returns: the first byte of the text for the character target, which for the empty text
  is the terminator NUL (not the default, not an error), and the view of the text for the
  text target. Both resolvers return exactly that for a present variable and leave the
  error stream alone: with a default the catch clause is never entered for these targets,
  and without a default get() can fail in one way only, with the \<^verbatim>\<open>std::runtime_error\<close>
  of an absent variable.
\<close>

theorem char_and_text_never_fail:
  assumes "ty = T_char \<or> ty = T_string_view"
  shows "(\<exists>r. convert L ty E env = Inr r)
       \<and> (ty = T_char \<longrightarrow>
            convert L ty E env
              = Inr (Scalar (V_char (case mem E env of [] \<Rightarrow> NUL | c # _ \<Rightarrow> c))))
       \<and> (ty = T_string_view \<longrightarrow>
            convert L ty E env
              = Inr (StringView \<lparr>sv_data = Environ env, sv_size = length (mem E env)\<rparr>))
       \<and> (getenv E (name_of (EnvName C)) = Some env \<and> static_value st = None
            \<and> type_of (DefaultValueType_get (DefaultValue C)) = ty \<longrightarrow>
            fst (EnvHelperWithDefault_get L C E st) = convert L ty E env
            \<and> cerr (std_streams (snd (EnvHelperWithDefault_get L C E st))) = cerr (std_streams st))
       \<and> (getenv E (name_of n) = Some env \<longrightarrow>
            fst (EnvHelper_get L n ty msg E io) = convert L ty E env
            \<and> cerr (snd (EnvHelper_get L n ty msg E io)) = cerr io)
       \<and> (\<forall>e. fst (EnvHelper_get L n ty msg E io) = Inl e \<longrightarrow>
            getenv E (name_of n) = None \<and> e = runtime_error (not_set_message n))"
proof -
  have ok: "\<exists>r. convert L ty E a = Inr r" for a
    using assms convert_char_text [of L E a] by auto
  have "fst (EnvHelperWithDefault_get L C E st) = convert L ty E env
      \<and> cerr (std_streams (snd (EnvHelperWithDefault_get L C E st))) = cerr (std_streams st)"
    if "getenv E (name_of (EnvName C)) = Some env" "static_value st = None"
      "type_of (DefaultValueType_get (DefaultValue C)) = ty"
  proof -
    obtain r where r: "convert L ty E env = Inr r" using ok by blast
    from initializer_parsed [of E C env L r] that r show ?thesis
      by (simp add: first_call)
  qed
  moreover have "fst (EnvHelper_get L n ty msg E io) = convert L ty E env
      \<and> cerr (snd (EnvHelper_get L n ty msg E io)) = cerr io"
    if present: "getenv E (name_of n) = Some env"
  proof -
    obtain r where r: "convert L ty E env = Inr r" using ok by blast
    from EnvHelper_get_parsed [OF present r, of msg io] r show ?thesis by simp
  qed
  moreover have "getenv E (name_of n) = None \<and> e = runtime_error (not_set_message n)"
    if "fst (EnvHelper_get L n ty msg E io) = Inl e" for e
  proof (cases "getenv E (name_of n)")
    case None
    with that show ?thesis by (simp add: EnvHelper_get_result resolve_def)
  next
    case (Some a)
    obtain r where "convert L ty E a = Inr r" using ok by blast
    with Some that show ?thesis by (simp add: EnvHelper_get_result resolve_def)
  qed
  moreover have "ty = T_char \<longrightarrow>
      convert L ty E env = Inr (Scalar (V_char (case mem E env of [] \<Rightarrow> NUL | c # _ \<Rightarrow> c)))"
    by (simp add: convert_char_text)
  moreover have "ty = T_string_view \<longrightarrow>
      convert L ty E env
        = Inr (StringView \<lparr>sv_data = Environ env, sv_size = length (mem E env)\<rparr>)"
    by (simp add: convert_char_text)
  ultimately show ?thesis using ok by blast
qed

theorem char_and_text_never_fail_witness:
  "fst (EnvHelperWithDefault_get no_floats port_or_a (port_set_to []) start)
     = Inr (Scalar (V_char NUL))
   \<and> cerr (std_streams (snd (EnvHelperWithDefault_get no_floats port_or_a (port_set_to []) start)))
     = []
   \<and> fst (EnvHelper_get no_floats PORT T_char False (port_set_to ''hello'') \<lparr>cout = [], cerr = []\<rparr>)
     = Inr (Scalar (V_char CHR ''h''))
   \<and> fst (EnvHelper_get no_floats PORT T_char False (port_set_to []) \<lparr>cout = [], cerr = []\<rparr>)
     = Inr (Scalar (V_char NUL))
   \<and> fst (EnvHelper_get no_floats PORT T_string_view False (port_set_to ''hello'')
        \<lparr>cout = [], cerr = []\<rparr>)
     = Inr (StringView \<lparr>sv_data = Environ 7, sv_size = 5\<rparr>)
   \<and> cerr (snd (EnvHelper_get no_floats PORT T_string_view False (port_set_to ''hello'')
        \<lparr>cout = [], cerr = []\<rparr>)) = []"
proof -
  have c: "T_char = T_char \<or> T_char = T_string_view"
    by simp
  have t: "T_string_view = T_char \<or> T_string_view = T_string_view"
    by simp
  have h1: "getenv (port_set_to []) (name_of (EnvName port_or_a)) = Some 7
      \<and> static_value start = None
      \<and> type_of (DefaultValueType_get (DefaultValue port_or_a)) = T_char"
    by code_simp
  have p: "getenv (port_set_to ''hello'') (name_of PORT) = Some 7"
    "getenv (port_set_to []) (name_of PORT) = Some 7"
    by code_simp+
  have e1: "mem (port_set_to []) 7 = []" "mem (port_set_to ''hello'') 7 = ''hello''"
    "cerr (std_streams start) = []"
    by (simp_all add: port_set_to_def start_def)
  from char_and_text_never_fail [OF c, of no_floats "port_set_to []" 7 port_or_a start] h1
  have "fst (EnvHelperWithDefault_get no_floats port_or_a (port_set_to []) start)
      = Inr (Scalar (V_char NUL))
    \<and> cerr (std_streams (snd (EnvHelperWithDefault_get no_floats port_or_a (port_set_to []) start)))
      = []"
    by (simp add: e1)
  moreover
  from char_and_text_never_fail [OF c, of no_floats "port_set_to ''hello''" 7 _ _ PORT False
      "\<lparr>cout = [], cerr = []\<rparr>"] p(1)
  have "fst (EnvHelper_get no_floats PORT T_char False (port_set_to ''hello'')
        \<lparr>cout = [], cerr = []\<rparr>) = Inr (Scalar (V_char CHR ''h''))"
    by (simp add: e1)
  moreover
  from char_and_text_never_fail [OF c, of no_floats "port_set_to []" 7 _ _ PORT False
      "\<lparr>cout = [], cerr = []\<rparr>"] p(2)
  have "fst (EnvHelper_get no_floats PORT T_char False (port_set_to []) \<lparr>cout = [], cerr = []\<rparr>)
      = Inr (Scalar (V_char NUL))"
    by (simp add: e1)
  moreover
  from char_and_text_never_fail [OF t, of no_floats "port_set_to ''hello''" 7 _ _ PORT False
      "\<lparr>cout = [], cerr = []\<rparr>"] p(1)
  have "fst (EnvHelper_get no_floats PORT T_string_view False (port_set_to ''hello'')
        \<lparr>cout = [], cerr = []\<rparr>)
      = Inr (StringView \<lparr>sv_data = Environ 7, sv_size = 5\<rparr>)
    \<and> cerr (snd (EnvHelper_get no_floats PORT T_string_view False (port_set_to ''hello'')
        \<lparr>cout = [], cerr = []\<rparr>)) = []"
    by (simp add: e1)
  ultimately show ?thesis by simp
qed

end
